theory Spec2Isabelle
  imports Complex_Main "HOL-Library.AList" "HOL-Library.Log_Nat" "HOL-Library.Word"
begin


section \<open>The JavaScript values the codec works on\<close>

text \<open>
  The codec is written in TypeScript and runs on Node. A JavaScript string is modelled as a
  \<open>string\<close> (the code units of the Latin-1 range), a Buffer as a list of bytes, a Date as
  its time value (milliseconds since the epoch, or the invalid date), and a number as the
  binary64 value it holds: NaN, the two infinities, or a finite value kept as a rational
  (the sign of zero is not kept).
\<close>

type_synonym byte = "8 word"

datatype number = NaN | PosInfinity | NegInfinity | Finite rat

datatype date = InvalidDate | TimeValue int

datatype jsvalue =
    VUndefined
  | VNull
  | VBool bool
  | VNumber number
  | VString string
  | VDate date
  | VBuffer "byte list"
  | VCustom string string
  | VArray "jsvalue list"
  | VObject "(string \<times> jsvalue) list" "jsvalue option"

text \<open>
  \<open>VCustom tagName raw\<close> is an instance of \<open>CustomType\<close> (customtype.mts);
  \<open>VUndefined\<close> also stands for the kinds the serializer skips (functions, symbols).
  \<open>VObject props proto\<close> is an ordinary object: \<open>props\<close> are its own properties (all of
  them enumerable, writable data properties) in the order \<open>Object.keys\<close> lists them, and
  \<open>proto\<close> is its prototype, \<open>None\<close> for \<open>Object.prototype\<close> (what \<open>{}\<close> has) and
  \<open>Some v\<close> for the value \<open>v\<close>, \<open>null\<close> or an object, that an assignment has put in its
  place.
\<close>

text \<open>The errors the code throws and hands to callbacks: \<open>new Error(message)\<close>, the
  \<open>TypeError\<close> of the runtime, and the error \<open>createFault\<close> builds, which
  \<open>Fault message faultCode faultString\<close> gives with its \<open>code\<close>/\<open>faultCode\<close> and
  \<open>faultString\<close> properties.\<close>

datatype err = Error string | TypeError string | Fault string jsvalue jsvalue

subsection \<open>Characters and decimal text\<close>

definition is_digit :: "char \<Rightarrow> bool" where
  "is_digit c = (48 \<le> (of_char c :: nat) \<and> (of_char c :: nat) \<le> 57)"

definition digit_val :: "char \<Rightarrow> int" where
  "digit_val c = int (of_char c) - 48"

definition digit_char :: "nat \<Rightarrow> char" where
  "digit_char d = char_of (48 + d)"

text \<open>White space that \<open>parseInt\<close> and \<open>parseFloat\<close> skip at the start of their argument:
  TAB, LF, VT, FF, CR, SP and NBSP.\<close>

definition is_js_whitespace :: "char \<Rightarrow> bool" where
  "is_js_whitespace c = ((of_char c :: nat) \<in> {9, 10, 11, 12, 13, 32, 160})"

definition digits_value :: "string \<Rightarrow> int" where
  "digits_value ds = foldl (\<lambda>a c. 10 * a + digit_val c) 0 ds"

fun show_nat :: "nat \<Rightarrow> string" where
  "show_nat n = (if n < 10 then [digit_char n] else show_nat (n div 10) @ [digit_char (n mod 10)])"

declare show_nat.simps [simp del]

definition show_int :: "int \<Rightarrow> string" where
  "show_int i = (if i < 0 then CHR ''-'' # show_nat (nat (- i)) else show_nat (nat i))"

subsection \<open>Rounding to binary64\<close>

definition pow2 :: "int \<Rightarrow> rat" where
  "pow2 k = (if 0 \<le> k then 2 ^ nat k else 1 / 2 ^ nat (- k))"

definition round_half_even :: "rat \<Rightarrow> int" where
  "round_half_even x =
     (let f = \<lfloor>x\<rfloor>; r = x - of_int f
      in if r < 1 / 2 then f else if 1 / 2 < r then f + 1 else if even f then f else f + 1)"

text \<open>For \<open>a > 0\<close>, the exponent \<open>e\<close> with \<open>2 ^ e \<le> a < 2 ^ (e + 1)\<close>.\<close>

definition floor_log2 :: "rat \<Rightarrow> int" where
  "floor_log2 a =
     (let k = bitlen (fst (quotient_of a)) - bitlen (snd (quotient_of a))
      in if pow2 k \<le> a then k else k - 1)"

text \<open>The number a mathematical value denotes: the nearest binary64 value, ties to even,
  with 53 bits of precision, gradual underflow and overflow to an infinity.\<close>

definition to_double :: "rat \<Rightarrow> number" where
  "to_double q =
     (if q = 0 then Finite 0
      else let a = \<bar>q\<bar>;
               e = max (floor_log2 a - 52) (- 1074);
               m = round_half_even (a / pow2 e);
               v = of_int m * pow2 e
           in if 2 ^ 1024 \<le> v then (if q < 0 then NegInfinity else PosInfinity)
              else Finite (if q < 0 then - v else v))"

subsection \<open>parseInt and parseFloat\<close>

text \<open>An optional sign at the head of a text: whether it is a minus, and the text after it.\<close>

definition is_negative :: "string \<Rightarrow> bool" where
  "is_negative s = (s \<noteq> [] \<and> hd s = CHR ''-'')"

definition skip_sign :: "string \<Rightarrow> string" where
  "skip_sign s = (if s \<noteq> [] \<and> (hd s = CHR ''+'' \<or> hd s = CHR ''-'') then tl s else s)"

text \<open>\<open>parseInt(t, 10)\<close>: skip leading white space, read an optional sign, take the longest
  run of decimal digits; no digit gives NaN.\<close>

definition parseInt :: "string \<Rightarrow> number" where
  "parseInt t =
     (let s = dropWhile is_js_whitespace t;
          z = takeWhile is_digit (skip_sign s)
      in if z = [] then NaN
         else to_double ((if is_negative s then - 1 else 1) * of_int (digits_value z)))"

text \<open>The exponent part of a decimal literal: \<open>e\<close> or \<open>E\<close>, an optional sign and at
  least one digit; anything else is no exponent.\<close>

definition exponent_part :: "string \<Rightarrow> int" where
  "exponent_part r =
     (if r \<noteq> [] \<and> (hd r = CHR ''e'' \<or> hd r = CHR ''E'') then
        (let ds = takeWhile is_digit (skip_sign (tl r))
         in if ds = [] then 0
            else (if is_negative (tl r) then - digits_value ds else digits_value ds))
      else 0)"

text \<open>\<open>parseFloat(t)\<close>: skip leading white space, take the longest prefix that is a decimal
  literal (\<open>Infinity\<close>, or digits with an optional fraction and exponent, signed or not);
  no such prefix gives NaN.\<close>

definition parseFloat :: "string \<Rightarrow> number" where
  "parseFloat t =
     (let s = dropWhile is_js_whitespace t;
          neg = is_negative s;
          s' = skip_sign s
      in if take 8 s' = ''Infinity'' then (if neg then NegInfinity else PosInfinity)
         else let ip = takeWhile is_digit s';
                  r1 = dropWhile is_digit s';
                  fp = (if r1 \<noteq> [] \<and> hd r1 = CHR ''.'' then takeWhile is_digit (tl r1) else []);
                  r2 = (if r1 \<noteq> [] \<and> hd r1 = CHR ''.'' then dropWhile is_digit (tl r1) else r1)
              in if ip = [] \<and> fp = [] then NaN
                 else let m = of_int (digits_value (ip @ fp)) / 10 ^ length fp;
                          v = (let x = exponent_part r2
                               in if 0 \<le> x then m * 10 ^ nat x else m / 10 ^ nat (- x))
                      in to_double (if neg then - v else v))"

subsection \<open>The environment\<close>

text \<open>
  What the code reads from its runtime and cannot compute from its arguments: the offset
  \<open>new Date().getTimezoneOffset()\<close> at the moment of a call (minutes, positive behind UTC),
  the offset \<open>d.getTimezoneOffset()\<close> of a given date, and the text JavaScript gives a
  number that is not a safe integer, a Date and a Buffer when one is coerced to a string.
  The last three fields stand for the runtime on an ordinary object whose prototype chain
  runs into an array, a Date, a Buffer or a \<open>CustomType\<close>: \<open>exoticText b obj\<close> is the
  outcome of \<open>String(obj)\<close> (\<open>b\<close> true) or of \<open>"" + obj\<close> (\<open>b\<close> false),
  \<open>exoticSet obj k v\<close> is the outcome of \<open>obj[k] = v\<close>, the object afterwards or the error
  thrown, and \<open>exoticElement obj\<close> is the outcome of serializing \<open>obj\<close> with the methods
  of the Date, the Buffer or the \<open>CustomType\<close> it inherits from: the error thrown, or the
  name and the text of the element written.
\<close>

record jsenv =
  nowOffset :: int
  tzOffset :: "date \<Rightarrow> int"
  numberText :: "rat \<Rightarrow> string"
  dateText :: "date \<Rightarrow> string"
  bufferText :: "byte list \<Rightarrow> string"
  exoticText :: "bool \<Rightarrow> jsvalue \<Rightarrow> err + string"
  exoticSet :: "jsvalue \<Rightarrow> string \<Rightarrow> jsvalue \<Rightarrow> err + jsvalue"
  exoticElement :: "jsvalue \<Rightarrow> err + string \<times> string"

text \<open>\<open>String(x)\<close> for a number: an integral value up to \<open>2 ^ 53\<close> in magnitude is written
  with its decimal digits; the shortest-digits text of every other finite value is the
  environment's.\<close>

definition Number_toString :: "jsenv \<Rightarrow> number \<Rightarrow> string" where
  "Number_toString env n =
     (case n of
        NaN \<Rightarrow> ''NaN''
      | PosInfinity \<Rightarrow> ''Infinity''
      | NegInfinity \<Rightarrow> ''-Infinity''
      | Finite q \<Rightarrow>
          if q = of_int \<lfloor>q\<rfloor> \<and> \<bar>q\<bar> \<le> 2 ^ 53 then show_int \<lfloor>q\<rfloor> else numberText env q)"

subsection \<open>Ordinary objects\<close>

text \<open>Where the lookup of a property name ends on an ordinary object: at a property of
  the object or of an object of its prototype chain (\<open>Found\<close>, with the value), at
  \<open>Object.prototype\<close> (\<open>Builtin\<close>), at a \<open>null\<close> prototype (\<open>Absent\<close>), or at an object of
  another kind in the chain (\<open>Exotic\<close>).\<close>

datatype lookup = Found jsvalue | Builtin | Absent | Exotic

fun lookup_member :: "jsvalue \<Rightarrow> string \<Rightarrow> lookup" where
  "lookup_member (VObject props proto) k =
     (case map_of props k of
        Some v \<Rightarrow> Found v
      | None \<Rightarrow> (case proto of None \<Rightarrow> Builtin | Some p \<Rightarrow> lookup_member p k))"
| "lookup_member VNull k = Absent"
| "lookup_member v k = Exotic"

text \<open>\<open>v?.k\<close> for a name \<open>k\<close> that no built-in object defines (\<open>faultCode\<close>,
  \<open>faultString\<close>), or that is an own property of \<open>v\<close>.\<close>

fun get_member :: "jsvalue \<Rightarrow> string \<Rightarrow> jsvalue" where
  "get_member (VObject props proto) k =
     (case lookup_member (VObject props proto) k of Found v \<Rightarrow> v | _ \<Rightarrow> VUndefined)"
| "get_member v k = VUndefined"

text \<open>An array index is the canonical decimal text of an integer from 0 to \<open>2 ^ 32 - 2\<close>.
  The own property keys of an object are listed with the array indices first, in
  ascending order, and then the other names in the order of their creation.\<close>

definition array_index :: "string \<Rightarrow> int option" where
  "array_index k =
     (if k \<noteq> [] \<and> list_all is_digit k \<and> (k = ''0'' \<or> hd k \<noteq> CHR ''0'')
         \<and> digits_value k < 2 ^ 32 - 1
      then Some (digits_value k) else None)"

definition key_before :: "string \<Rightarrow> string \<Rightarrow> bool" where
  "key_before k k' =
     (case array_index k of
        None \<Rightarrow> False
      | Some n \<Rightarrow> (case array_index k' of None \<Rightarrow> True | Some n' \<Rightarrow> n < n'))"

fun insert_key :: "string \<Rightarrow> jsvalue \<Rightarrow> (string \<times> jsvalue) list \<Rightarrow> (string \<times> jsvalue) list" where
  "insert_key k v [] = [(k, v)]"
| "insert_key k v (p # ps) =
     (if key_before k (fst p) then (k, v) # p # ps else p # insert_key k v ps)"

text \<open>Defining an own data property: the value of a key that is there is replaced where
  it stands, a new key takes its place in the order of the keys.\<close>

definition define_own :: "string \<Rightarrow> jsvalue \<Rightarrow> (string \<times> jsvalue) list \<Rightarrow> (string \<times> jsvalue) list" where
  "define_own k v props =
     (if k \<in> set (map fst props) then AList.update k v props else insert_key k v props)"

fun is_object :: "jsvalue \<Rightarrow> bool" where
  "is_object (VDate d) = True"
| "is_object (VBuffer b) = True"
| "is_object (VCustom t r) = True"
| "is_object (VArray xs) = True"
| "is_object (VObject props proto) = True"
| "is_object v = False"

text \<open>\<open>obj[k] = v\<close> on an ordinary object, in strict mode. The property is looked up along
  the prototype chain. Found as a data property, or not found at all, it becomes an own
  property of \<open>obj\<close>. The name \<open>__proto__\<close> is found on \<open>Object.prototype\<close> as an accessor,
  and its setter is called instead: it makes an object or \<open>null\<close> the prototype of \<open>obj\<close>,
  ignores every other value, and creates no own property.\<close>

definition set_member :: "jsenv \<Rightarrow> jsvalue \<Rightarrow> string \<Rightarrow> jsvalue \<Rightarrow> err + jsvalue" where
  "set_member env obj k v =
     (case obj of
        VObject props proto \<Rightarrow>
          (case lookup_member obj k of
             Found x \<Rightarrow> Inr (VObject (define_own k v props) proto)
           | Absent \<Rightarrow> Inr (VObject (define_own k v props) proto)
           | Builtin \<Rightarrow>
               if k = ''__proto__''
               then Inr (if is_object v \<or> v = VNull then VObject props (Some v) else obj)
               else Inr (VObject (define_own k v props) proto)
           | Exotic \<Rightarrow> exoticSet env obj k v)
      | _ \<Rightarrow> Inr obj)"

subsection \<open>Coercion to a string\<close>

fun join_with :: "string \<Rightarrow> string list \<Rightarrow> string" where
  "join_with sep [] = []"
| "join_with sep [x] = x"
| "join_with sep (x # y # ys) = x @ sep @ join_with sep (y # ys)"

text \<open>The results of a list of coercions made in order: the first error thrown, or every
  text.\<close>

fun all_texts :: "(err + string) list \<Rightarrow> err + string list" where
  "all_texts [] = Inr []"
| "all_texts (Inl e # rs) = Inl e"
| "all_texts (Inr t # rs) = (case all_texts rs of Inl e \<Rightarrow> Inl e | Inr ts \<Rightarrow> Inr (t # ts))"

text \<open>
  \<open>js_text env b v\<close> is \<open>String(v)\<close> when \<open>b\<close> is true, and the text of \<open>v\<close> as an operand of
  a string concatenation when \<open>b\<close> is false. The two differ only in the order in which an
  object is asked for \<open>toString\<close> and \<open>valueOf\<close>. An array joins the texts of its elements
  (nothing for \<open>null\<close> and \<open>undefined\<close>). An ordinary object gives \<open>[object Object]\<close> when the
  lookup of \<open>toString\<close> ends at \<open>Object.prototype\<close>; when it ends at a member (no decoded
  value is callable) or at a \<open>null\<close> prototype, \<open>valueOf\<close> gives no primitive either and
  the coercion throws a \<open>TypeError\<close>.
\<close>

fun js_text :: "jsenv \<Rightarrow> bool \<Rightarrow> jsvalue \<Rightarrow> err + string" where
  "js_text env b VUndefined = Inr ''undefined''"
| "js_text env b VNull = Inr ''null''"
| "js_text env b (VBool x) = Inr (if x then ''true'' else ''false'')"
| "js_text env b (VNumber n) = Inr (Number_toString env n)"
| "js_text env b (VString s) = Inr s"
| "js_text env b (VDate d) = Inr (dateText env d)"
| "js_text env b (VBuffer bs) = Inr (bufferText env bs)"
| "js_text env b (VCustom t r) = Inr ''[object Object]''"
| "js_text env b (VArray xs) =
     (case all_texts (map (\<lambda>x. if x = VNull \<or> x = VUndefined then Inr [] else js_text env True x) xs) of
        Inl e \<Rightarrow> Inl e
      | Inr ts \<Rightarrow> Inr (join_with '','' ts))"
| "js_text env b (VObject props proto) =
     (if lookup_member (VObject props proto) ''toString'' = Builtin then Inr ''[object Object]''
      else if lookup_member (VObject props proto) ''toString'' = Exotic
              \<or> lookup_member (VObject props proto) ''valueOf'' = Exotic
      then exoticText env b (VObject props proto)
      else Inl (TypeError ''Cannot convert object to primitive value''))"

text \<open>\<open>String(v)\<close>, the coercion \<open>endStruct\<close> applies to a member key.\<close>

definition js_String :: "jsenv \<Rightarrow> jsvalue \<Rightarrow> err + string" where
  "js_String env v = js_text env True v"

text \<open>Truthiness, as \<open>if (x)\<close> and \<open>x ? a : b\<close> test it.\<close>

fun js_truthy :: "jsvalue \<Rightarrow> bool" where
  "js_truthy VUndefined = False"
| "js_truthy VNull = False"
| "js_truthy (VBool b) = b"
| "js_truthy (VNumber n) = (n \<noteq> NaN \<and> n \<noteq> Finite 0)"
| "js_truthy (VString s) = (s \<noteq> [])"
| "js_truthy _ = True"

subsection \<open>Base64, as Buffer decodes and encodes it\<close>

text \<open>The value of a character of the alphabet: \<open>A\<close> to \<open>Z\<close>, \<open>a\<close> to \<open>z\<close>, \<open>0\<close> to \<open>9\<close>, then \<open>+\<close>
  or \<open>-\<close> (codes 43 and 45) and \<open>/\<close> or \<open>_\<close> (codes 47 and 95).\<close>

definition unbase64 :: "char \<Rightarrow> nat option" where
  "unbase64 c =
     (let n = (of_char c :: nat)
      in if 65 \<le> n \<and> n \<le> 90 then Some (n - 65)
         else if 97 \<le> n \<and> n \<le> 122 then Some (n - 71)
         else if 48 \<le> n \<and> n \<le> 57 then Some (n + 4)
         else if n = 43 \<or> n = 45 then Some 62
         else if n = 47 \<or> n = 95 then Some 63
         else None)"

fun sextets_bytes :: "nat list \<Rightarrow> byte list" where
  "sextets_bytes (a # b # c # d # r) =
     of_nat ((a * 4 + b div 16) mod 256) # of_nat ((b mod 16) * 16 + c div 4)
       # of_nat ((c mod 4) * 64 + d) # sextets_bytes r"
| "sextets_bytes [a, b, c] =
     [of_nat ((a * 4 + b div 16) mod 256), of_nat ((b mod 16) * 16 + c div 4)]"
| "sextets_bytes [a, b] = [of_nat ((a * 4 + b div 16) mod 256)]"
| "sextets_bytes _ = []"

text \<open>\<open>Buffer.from(t, "base64")\<close>: characters outside the alphabet are skipped, decoding
  stops at the first \<open>=\<close>, and a trailing group that does not fill a byte is dropped.
  No text is rejected.\<close>

definition base64_decode :: "string \<Rightarrow> byte list" where
  "base64_decode t =
     sextets_bytes (List.map_filter unbase64 (takeWhile (\<lambda>c. c \<noteq> CHR ''='') t))"

definition base64_char :: "nat \<Rightarrow> char" where
  "base64_char n =
     (if n < 26 then char_of (n + 65)
      else if n < 52 then char_of (n + 71)
      else if n < 62 then char_of (n - 4)
      else if n = 62 then CHR ''+'' else CHR ''/'')"

fun base64_encode :: "byte list \<Rightarrow> string" where
  "base64_encode (x # y # z # r) =
     (let a = unat x; b = unat y; c = unat z
      in base64_char (a div 4) # base64_char ((a mod 4) * 16 + b div 16)
           # base64_char ((b mod 16) * 4 + c div 64) # base64_char (c mod 64) # base64_encode r)"
| "base64_encode [x, y] =
     (let a = unat x; b = unat y
      in [base64_char (a div 4), base64_char ((a mod 4) * 16 + b div 16),
          base64_char ((b mod 16) * 4), CHR ''=''])"
| "base64_encode [x] =
     (let a = unat x in [base64_char (a div 4), base64_char ((a mod 4) * 16), CHR ''='', CHR ''=''])"
| "base64_encode [] = []"

section \<open>date\_formatter.mts\<close>

subsection \<open>The Date constructor on the text the decoder hands it\<close>

text \<open>Days from 1970-01-01 to the first day of a month of the proleptic Gregorian calendar.\<close>

definition days_from_civil :: "int \<Rightarrow> int \<Rightarrow> int" where
  "days_from_civil y m =
     (let y' = (if m \<le> 2 then y - 1 else y);
          era = y' div 400;
          yoe = y' - era * 400;
          doy = (153 * (if 2 < m then m - 3 else m + 9) + 2) div 5;
          doe = yoe * 365 + yoe div 4 - yoe div 100 + doy
      in era * 146097 + doe - 719468)"

text \<open>The zone designator of a date-time string: \<open>Z\<close>, \<open>+HH:MM\<close> or \<open>+HHMM\<close> (either
  sign) with the hours up to 23 and the minutes up to 59, as minutes east of UTC.\<close>

definition zone_minutes :: "string \<Rightarrow> int option" where
  "zone_minutes z =
     (if z = ''Z'' then Some 0
      else if z \<noteq> [] \<and> (hd z = CHR ''+'' \<or> hd z = CHR ''-'') then
        (let ds = filter (\<lambda>c. c \<noteq> CHR '':'') (tl z)
         in if length ds = 4 \<and> list_all is_digit ds
               \<and> (tl z = ds \<or> tl z = take 2 ds @ '':'' @ drop 2 ds)
               \<and> digits_value (take 2 ds) \<le> 23 \<and> digits_value (drop 2 ds) \<le> 59
            then Some ((if hd z = CHR ''-'' then - 1 else 1)
                        * ((digits_value (take 2 ds)) * 60 + (digits_value (drop 2 ds))))
            else None)
      else None)"

text \<open>\<open>new Date(text)\<close> for a text of the shape \<open>YYYY-MM-DDTHH:MM:SS.F\<close> followed by a
  zone designator, which is the only shape \<open>decodeIso8601\<close> builds. Node reads the first
  three digits of the fraction as milliseconds, lets a day up to 31 run into the next month,
  and gives the invalid date when a field is out of range.\<close>

definition Date_new :: "string \<Rightarrow> date" where
  "Date_new t =
     (let yy = take 4 t; mo = take 2 (drop 5 t); dd = take 2 (drop 8 t);
          hh = take 2 (drop 11 t); mi = take 2 (drop 14 t); ss = take 2 (drop 17 t);
          fr = takeWhile is_digit (drop 20 t); z = dropWhile is_digit (drop 20 t)
      in if 21 \<le> length t \<and> list_all is_digit (yy @ mo @ dd @ hh @ mi @ ss) \<and> fr \<noteq> []
            \<and> [t ! 4, t ! 7, t ! 10, t ! 13, t ! 16, t ! 19] = ''--T::.''
         then (case zone_minutes z of
           None \<Rightarrow> InvalidDate
         | Some off \<Rightarrow>
             (let Y = digits_value yy; M = digits_value mo; D = digits_value dd;
                  h = digits_value hh; m = digits_value mi; s = digits_value ss;
                  ms = digits_value (take 3 (fr @ ''00''))
              in if 1 \<le> M \<and> M \<le> 12 \<and> 1 \<le> D \<and> D \<le> 31
                    \<and> ((h \<le> 23 \<and> m \<le> 59 \<and> s \<le> 59) \<or> (h = 24 \<and> m = 0 \<and> s = 0 \<and> ms = 0))
                 then TimeValue
                   (((((days_from_civil Y M + D - 1) * 24 + h) * 60 + m - off) * 60 + s) * 1000 + ms)
                 else InvalidDate))
         else InvalidDate)"

subsection \<open>DateFormatter\<close>

text \<open>\<open>zeroPad(digit, length)\<close>: the decimal text of \<open>digit\<close>, padded on the left with
  zeros while it is shorter than \<open>length\<close>.\<close>

definition zeroPad :: "int \<Rightarrow> nat \<Rightarrow> string" where
  "zeroPad digit len = replicate (len - length (show_int digit)) CHR ''0'' @ show_int digit"

text \<open>JavaScript's \<open>%\<close> on integers: the remainder has the sign of the dividend.\<close>

definition js_rem :: "int \<Rightarrow> int \<Rightarrow> int" where
  "js_rem a b = sgn a * (\<bar>a\<bar> mod \<bar>b\<bar>)"

text \<open>\<open>formatCurrentOffset(d)\<close>, as a function of \<open>d.getTimezoneOffset()\<close>.
  \<open>Math.floor(offset / 60)\<close> is the floor of the quotient, which \<open>div\<close> on \<open>int\<close> is.\<close>

definition formatCurrentOffset :: "int \<Rightarrow> string" where
  "formatCurrentOffset offset =
     (if offset = 0 then ''Z''
      else (if offset < 0 then ''+'' else ''-'')
           @ zeroPad (abs (offset div 60)) 2 @ '':'' @ zeroPad (abs (js_rem offset 60)) 2)"

text \<open>The groups of the regular expression \<open>ISO8601\<close> that the decoder reads, numbered as
  \<open>match\<close> numbers them; an optional group that took no part in the match is \<open>None\<close>.\<close>

record iso_parts =
  g1 :: string
  g3 :: string
  g5 :: string
  g7 :: "string option"
  g11 :: "string option"
  g14 :: "string option"
  g16 :: "string option"
  g17 :: "string option"
  g19 :: "string option"
  g20 :: "string option"

text \<open>\<open>[0-9]{2}\<close> at the head of a text.\<close>

definition two_digits :: "string \<Rightarrow> (string \<times> string) option" where
  "two_digits s =
     (if 2 \<le> length s \<and> is_digit (s ! 0) \<and> is_digit (s ! 1) then Some (take 2 s, drop 2 s)
      else None)"

text \<open>\<open>c?([0-9]{2})\<close> at the head of a text: the separator taken, the digits, the rest.\<close>

definition sep_two :: "char \<Rightarrow> string \<Rightarrow> (string \<times> string \<times> string) option" where
  "sep_two c s =
     (if s \<noteq> [] \<and> hd s = c then map_option (\<lambda>(d, r). ([c], d, r)) (two_digits (tl s))
      else map_option (\<lambda>(d, r). ([], d, r)) (two_digits s))"

text \<open>The optional last group, \<open>(Z|([+-]([0-9]{2}(:?([0-9]{2}))?)))?\<close>: groups 17, 19, 20.\<close>

definition match_zone :: "string \<Rightarrow> string option \<times> string option \<times> string option" where
  "match_zone s =
     (if s \<noteq> [] \<and> hd s = CHR ''Z'' then (Some ''Z'', None, None)
      else if s \<noteq> [] \<and> (hd s = CHR ''+'' \<or> hd s = CHR ''-'') then
        (case two_digits (tl s) of
           None \<Rightarrow> (None, None, None)
         | Some (oh, r) \<Rightarrow>
             (case sep_two CHR '':'' r of
                None \<Rightarrow> (Some (hd s # oh), Some oh, None)
              | Some (sep, om, r') \<Rightarrow>
                  (Some (hd s # oh @ sep @ om), Some (oh @ sep @ om), Some (sep @ om))))
      else (None, None, None))"

text \<open>The optional time group, \<open>(T([0-9]{2})...)?\<close>, at the text left after the date.
  Every quantifier is greedy and everything after the hours is optional, so the first
  alternative that matches is the one \<open>match\<close> reports.\<close>

definition match_time :: "string \<Rightarrow> string \<Rightarrow> string \<Rightarrow> string \<Rightarrow> iso_parts" where
  "match_time y mo dd s =
     (case (if s \<noteq> [] \<and> hd s = CHR ''T'' then two_digits (tl s) else None) of
        None \<Rightarrow> \<lparr>g1 = y, g3 = mo, g5 = dd, g7 = None, g11 = None, g14 = None, g16 = None,
                 g17 = None, g19 = None, g20 = None\<rparr>
      | Some (hh, r3) \<Rightarrow>
          (let mi = sep_two CHR '':'' r3;
               r4 = (case mi of None \<Rightarrow> r3 | Some (_, _, r) \<Rightarrow> r);
               se = sep_two CHR '':'' r4;
               r5 = (case se of None \<Rightarrow> r4 | Some (_, _, r) \<Rightarrow> r);
               fr = (if r5 \<noteq> [] \<and> hd r5 = CHR ''.'' \<and> takeWhile is_digit (tl r5) \<noteq> []
                     then Some (takeWhile is_digit (tl r5)) else None);
               r6 = (if fr = None then r5 else dropWhile is_digit (tl r5));
               z = match_zone r6
           in \<lparr>g1 = y, g3 = mo, g5 = dd, g7 = Some hh,
               g11 = map_option (\<lambda>(_, d, _). d) mi, g14 = map_option (\<lambda>(_, d, _). d) se,
               g16 = fr, g17 = fst z, g19 = fst (snd z), g20 = snd (snd z)\<rparr>))"

text \<open>A match that starts at the head of the text: four digits, then month and day, each
  after an optional hyphen.\<close>

definition match_here :: "string \<Rightarrow> iso_parts option" where
  "match_here s =
     (if 4 \<le> length s \<and> list_all is_digit (take 4 s) then
        (case sep_two CHR ''-'' (drop 4 s) of
           None \<Rightarrow> None
         | Some (_, mo, r1) \<Rightarrow>
             (case sep_two CHR ''-'' r1 of
                None \<Rightarrow> None
              | Some (_, dd, r2) \<Rightarrow> Some (match_time (take 4 s) mo dd r2)))
      else None)"

text \<open>\<open>time.match(ISO8601)\<close>: the expression is not anchored, so the match is the one at the
  leftmost position that has one.\<close>

fun match_ISO8601 :: "string \<Rightarrow> iso_parts option" where
  "match_ISO8601 [] = match_here []"
| "match_ISO8601 (c # cs) =
     (case match_here (c # cs) of Some p \<Rightarrow> Some p | None \<Rightarrow> match_ISO8601 cs)"

text \<open>\<open>x || d\<close> on a group: the default replaces a group that is undefined or empty.\<close>

definition or_default :: "string option \<Rightarrow> string \<Rightarrow> string" where
  "or_default x d = (case x of None \<Rightarrow> d | Some s \<Rightarrow> if s = [] then d else s)"

text \<open>The text \<open>decodeIso8601\<close> assembles and passes to \<open>new Date\<close>; \<open>off\<close> is
  \<open>new Date().getTimezoneOffset()\<close> at the time of the call.\<close>

definition iso_text :: "int \<Rightarrow> iso_parts \<Rightarrow> string" where
  "iso_text off p =
     g1 p @ ''-'' @ or_default (Some (g3 p)) ''01'' @ ''-'' @ or_default (Some (g5 p)) ''01''
       @ ''T''
       @ or_default (g7 p) ''00'' @ '':'' @ or_default (g11 p) ''00'' @ '':''
       @ or_default (g14 p) ''00''
       @ ''.'' @ or_default (g16 p) ''000''
       @ (case g17 p of
            Some z \<Rightarrow> z @ (if g19 p \<noteq> None \<and> g19 p \<noteq> Some [] \<and> g20 p = None then ''00'' else [])
          | None \<Rightarrow> formatCurrentOffset off)"

definition decodeIso8601 :: "int \<Rightarrow> string \<Rightarrow> err + date" where
  "decodeIso8601 off time =
     (case match_ISO8601 time of
        None \<Rightarrow> Inl (Error (''Expected a ISO8601 datetime but got '' @ [CHR 0x27] @ time @ [CHR 0x27]))
      | Some p \<Rightarrow> Inr (Date_new (iso_text off p)))"

subsection \<open>Encoding a date\<close>

text \<open>The options of the formatter; the field \<open>opt_x\<close> is the option \<open>x\<close> of the source.\<close>

record DateFormatterOptions =
  opt_colons :: bool
  opt_hyphens :: bool
  opt_local :: bool
  opt_ms :: bool
  opt_offset :: bool

definition DEFAULT_OPTIONS :: DateFormatterOptions where
  "DEFAULT_OPTIONS = \<lparr>opt_colons = True, opt_hyphens = False, opt_local = True, opt_ms = False, opt_offset = False\<rparr>"

text \<open>Year, month and day of a day number counted from 1970-01-01.\<close>

definition civil_from_days :: "int \<Rightarrow> int \<times> int \<times> int" where
  "civil_from_days z =
     (let z' = z + 719468;
          era = z' div 146097;
          doe = z' - era * 146097;
          yoe = (doe - doe div 1460 + doe div 36524 - doe div 146096) div 365;
          doy = doe - (365 * yoe + yoe div 4 - yoe div 100);
          mp = (5 * doy + 2) div 153;
          d = doy - (153 * mp + 2) div 5 + 1;
          m = (if mp < 10 then mp + 3 else mp - 9);
          y = yoe + era * 400
      in (if m \<le> 2 then y + 1 else y, m, d))"

text \<open>The seven parts \<open>getUTCDateParts\<close> lists for a time value: the year as it is, the
  other fields zero-padded.\<close>

definition parts_of_time :: "int \<Rightarrow> string list" where
  "parts_of_time t =
     (let day = t div 86400000; r = t mod 86400000;
          (y, m, d) = civil_from_days day
      in [show_int y, zeroPad m 2, zeroPad d 2,
          zeroPad (r div 3600000) 2, zeroPad (r div 60000 mod 60) 2,
          zeroPad (r div 1000 mod 60) 2, zeroPad (r mod 1000) 3])"

text \<open>Every getter of the invalid date gives NaN, which \<open>zeroPad\<close> leaves as the text
  \<open>NaN\<close>.\<close>

definition getUTCDateParts :: "date \<Rightarrow> string list" where
  "getUTCDateParts d =
     (case d of InvalidDate \<Rightarrow> replicate 7 ''NaN'' | TimeValue t \<Rightarrow> parts_of_time t)"

text \<open>The local fields of a date are the UTC fields of the instant moved by the offset of
  that date.\<close>

definition getLocalDateParts :: "jsenv \<Rightarrow> date \<Rightarrow> string list" where
  "getLocalDateParts env d =
     (case d of
        InvalidDate \<Rightarrow> replicate 7 ''NaN''
      | TimeValue t \<Rightarrow> parts_of_time (t - tzOffset env d * 60000))"

definition encodeIso8601 :: "DateFormatterOptions \<Rightarrow> jsenv \<Rightarrow> date \<Rightarrow> string" where
  "encodeIso8601 opts env d =
     (let parts = (if opt_local opts then getLocalDateParts env d else getUTCDateParts d)
      in join_with (if opt_hyphens opts then ''-'' else []) (take 3 parts)
         @ ''T''
         @ join_with (if opt_colons opts then '':'' else []) (take 3 (drop 3 parts))
         @ (if opt_ms opts then ''.'' @ parts ! 6 else [])
         @ (if opt_local opts
            then (if opt_offset opts
                  then (case d of InvalidDate \<Rightarrow> ''-NaN:NaN''
                        | TimeValue t \<Rightarrow> formatCurrentOffset (tzOffset env d))
                  else [])
            else ''Z''))"

section \<open>The deserializer\<close>

text \<open>
  The fields of the class \<open>Deserializer\<close>. The field \<open>value\<close> of the source is
  \<open>valueFlag\<close> here and \<open>type\<close> is \<open>msgType\<close>. The stack and the marks grow at the end, as
  the arrays of the source do. \<open>callback\<close> tells which of the two wrappers
  (\<open>deserializeMethodResponse\<close>, \<open>deserializeMethodCall\<close>) installed the callback, and
  \<open>delivered\<close> records, in order, every call the wrapper makes to the caller's callback.
  \<open>escaped\<close> records the exceptions that leave a handler uncaught.
\<close>

datatype envelope = MethodResponse | MethodCall

datatype response_kind = Params | FaultKind

datatype wrapper = ResponseWrapper | CallWrapper

datatype outcome =
    CbError err
  | CbResponse jsvalue
  | CbCall string "jsvalue list"

record deserializer =
  msgType :: "envelope option"
  responseType :: "response_kind option"
  stack :: "jsvalue list"
  marks :: "nat list"
  data :: "string list"
  methodname :: "string option"
  encoding :: string
  valueFlag :: bool
  callback :: "wrapper option"
  error :: "err option"
  delivered :: "outcome list"
  escaped :: "err list"

text \<open>The state the constructor leaves.\<close>

definition new_deserializer :: "string option \<Rightarrow> deserializer" where
  "new_deserializer enc =
     \<lparr>msgType = None, responseType = None, stack = [], marks = [], data = [],
      methodname = None,
      encoding = (case enc of None \<Rightarrow> ''utf8'' | Some e \<Rightarrow> if e = [] then ''utf8'' else e),
      valueFlag = False, callback = None, error = None, delivered = [], escaped = []\<rparr>"

definition deserializeMethodResponse :: "deserializer \<Rightarrow> deserializer" where
  "deserializeMethodResponse s = s\<lparr>callback := Some ResponseWrapper\<rparr>"

definition deserializeMethodCall :: "deserializer \<Rightarrow> deserializer" where
  "deserializeMethodCall s = s\<lparr>callback := Some CallWrapper\<rparr>"

text \<open>What each wrapper passes on to the caller when it is called with \<open>(error, result)\<close>;
  the result, when there is one, is the value stack.\<close>

definition response_outcome :: "deserializer \<Rightarrow> err option \<Rightarrow> jsvalue list \<Rightarrow> outcome" where
  "response_outcome s e result =
     (case e of
        Some x \<Rightarrow> CbError x
      | None \<Rightarrow>
          if 1 < length result then CbError (Error ''Response has more than one param'')
          else if msgType s \<noteq> Some MethodResponse then CbError (Error ''Not a method response'')
          else if responseType s = None then CbError (Error ''Invalid method response'')
          else CbResponse (case result of [] \<Rightarrow> VUndefined | v # _ \<Rightarrow> v))"

definition call_outcome :: "deserializer \<Rightarrow> err option \<Rightarrow> jsvalue list \<Rightarrow> outcome" where
  "call_outcome s e result =
     (case e of
        Some x \<Rightarrow> CbError x
      | None \<Rightarrow>
          if msgType s \<noteq> Some MethodCall then CbError (Error ''Not a method call'')
          else if methodname s = None \<or> methodname s = Some []
          then CbError (Error ''Method call did not contain a method name'')
          else CbCall (the (methodname s)) result)"

text \<open>\<open>this.callback?.(error, result)\<close>: nothing happens while no callback is installed.\<close>

definition call_callback :: "err option \<Rightarrow> jsvalue list \<Rightarrow> deserializer \<Rightarrow> deserializer" where
  "call_callback e result s =
     (case callback s of
        None \<Rightarrow> s
      | Some ResponseWrapper \<Rightarrow> s\<lparr>delivered := delivered s @ [response_outcome s e result]\<rparr>
      | Some CallWrapper \<Rightarrow> s\<lparr>delivered := delivered s @ [call_outcome s e result]\<rparr>)"

text \<open>What \<open>onError\<close> can be handed: a string, an Error, or anything else.\<close>

datatype thrown = ThrownString string | ThrownError err | ThrownOther

fun as_error :: "thrown \<Rightarrow> err" where
  "as_error (ThrownString m) = Error m"
| "as_error (ThrownError x) = x"
| "as_error ThrownOther = Error ''Unknown error''"

definition onError :: "thrown \<Rightarrow> deserializer \<Rightarrow> deserializer" where
  "onError msg s =
     (if error s = None then call_callback (Some (as_error msg)) [] (s\<lparr>error := Some (as_error msg)\<rparr>)
      else s)"

text \<open>\<open>createFault\<close>: the message is \<open>"XML-RPC fault"\<close>, followed by \<open>": "\<close> and the
  fault string when that is truthy; the concatenation throws when the fault string is an
  object that has no text.\<close>

definition createFault :: "jsenv \<Rightarrow> jsvalue \<Rightarrow> err + err" where
  "createFault env fault =
     (if js_truthy (get_member fault ''faultString'')
      then (case js_text env False (get_member fault ''faultString'') of
              Inl e \<Rightarrow> Inl e
            | Inr t \<Rightarrow> Inr (Fault (''XML-RPC fault'' @ '': '' @ t)
                             (get_member fault ''faultCode'') (get_member fault ''faultString'')))
      else Inr (Fault ''XML-RPC fault''
                  (get_member fault ''faultCode'') (get_member fault ''faultString'')))"

text \<open>\<open>onDone\<close> has no \<open>try\<close>: what \<open>createFault\<close> throws leaves it, and the callback is
  not called.\<close>

definition onDone :: "jsenv \<Rightarrow> deserializer \<Rightarrow> deserializer" where
  "onDone env s =
     (if error s = None then
        (if msgType s = None \<or> marks s \<noteq> [] then
           call_callback (Some (Error ''Invalid XML-RPC message'')) [] s
         else if responseType s = Some FaultKind then
           (case createFault env (case stack s of [] \<Rightarrow> VUndefined | v # _ \<Rightarrow> v) of
              Inl e \<Rightarrow> s\<lparr>escaped := escaped s @ [e]\<rparr>
            | Inr f \<Rightarrow> call_callback (Some f) [] s)
         else call_callback None (stack s) s)
      else s)"

definition push :: "jsvalue \<Rightarrow> deserializer \<Rightarrow> deserializer" where
  "push v s = s\<lparr>stack := stack s @ [v]\<rparr>"

subsection \<open>SAX handlers\<close>

definition onOpentag :: "string \<Rightarrow> deserializer \<Rightarrow> deserializer" where
  "onOpentag name s =
     (let s1 = (if name = ''ARRAY'' \<or> name = ''STRUCT''
                then s\<lparr>marks := marks s @ [length (stack s)]\<rparr> else s)
      in s1\<lparr>data := [], valueFlag := (name = ''VALUE'')\<rparr>)"

definition onText :: "string \<Rightarrow> deserializer \<Rightarrow> deserializer" where
  "onText text s = s\<lparr>data := data s @ [text]\<rparr>"

definition onCDATA :: "string \<Rightarrow> deserializer \<Rightarrow> deserializer" where
  "onCDATA cdata s = s\<lparr>data := data s @ [cdata]\<rparr>"

subsection \<open>End-* helpers\<close>

text \<open>A helper that throws returns \<open>Inl\<close> of the error and of the state it leaves behind.
  Every helper but \<open>endStruct\<close> throws before it has changed a field (a \<open>pop\<close> that returns
  \<open>undefined\<close> has removed nothing).\<close>

type_synonym helper_result = "(err \<times> deserializer) + deserializer"

definition quoted :: "string \<Rightarrow> string" where
  "quoted t = [CHR 0x27] @ t @ [CHR 0x27]"

definition endNil :: "deserializer \<Rightarrow> helper_result" where
  "endNil s = Inr ((push VNull s)\<lparr>valueFlag := False\<rparr>)"

definition endBoolean :: "string \<Rightarrow> deserializer \<Rightarrow> helper_result" where
  "endBoolean d s =
     (if d = ''1'' then Inr ((push (VBool True) s)\<lparr>valueFlag := False\<rparr>)
      else if d = ''0'' then Inr ((push (VBool False) s)\<lparr>valueFlag := False\<rparr>)
      else Inl (Error (''Illegal boolean value '' @ quoted d), s))"

definition endInt :: "string \<Rightarrow> deserializer \<Rightarrow> helper_result" where
  "endInt d s =
     (let v = parseInt d
      in if v = NaN then Inl (Error (''Expected an integer but got '' @ quoted d), s)
         else Inr ((push (VNumber v) s)\<lparr>valueFlag := False\<rparr>))"

definition endDouble :: "string \<Rightarrow> deserializer \<Rightarrow> helper_result" where
  "endDouble d s =
     (let v = parseFloat d
      in if v = NaN then Inl (Error (''Expected a double but got '' @ quoted d), s)
         else Inr ((push (VNumber v) s)\<lparr>valueFlag := False\<rparr>))"

definition endString :: "string \<Rightarrow> deserializer \<Rightarrow> helper_result" where
  "endString d s = Inr ((push (VString d) s)\<lparr>valueFlag := False\<rparr>)"

text \<open>\<open>marks.pop()\<close> takes the last mark; \<open>stack.slice(mark)\<close> is \<open>drop mark\<close> and
  \<open>stack.splice(mark, stack.length - mark)\<close> leaves \<open>take mark\<close>, also for a mark beyond
  the end of the stack.\<close>

definition endArray :: "deserializer \<Rightarrow> helper_result" where
  "endArray s =
     (if marks s = [] then Inl (Error ''Array mark stack underflow'', s)
      else let mark = last (marks s);
               arr = drop mark (stack s)
           in Inr (s\<lparr>marks := butlast (marks s), stack := take mark (stack s) @ [VArray arr],
                     valueFlag := False\<rparr>))"

text \<open>The loop of \<open>endStruct\<close>: \<open>i\<close> steps by two over \<open>items\<close>; the key is
  \<open>String(items[i])\<close>, \<open>items[i + 1]\<close> past the end is \<open>undefined\<close>, and
  \<open>struct[key] = items[i + 1]\<close> is an assignment to the object built so far. The loop ends
  at the first coercion or assignment that throws.\<close>

fun struct_loop :: "jsenv \<Rightarrow> jsvalue list \<Rightarrow> jsvalue \<Rightarrow> err + jsvalue" where
  "struct_loop env [] struct = Inr struct"
| "struct_loop env [k] struct =
     (case js_String env k of
        Inl e \<Rightarrow> Inl e
      | Inr key \<Rightarrow> set_member env struct key VUndefined)"
| "struct_loop env (k # v # items) struct =
     (case js_String env k of
        Inl e \<Rightarrow> Inl e
      | Inr key \<Rightarrow>
          (case set_member env struct key v of
             Inl e \<Rightarrow> Inl e
           | Inr struct' \<Rightarrow> struct_loop env items struct'))"

text \<open>\<open>endStruct\<close> starts from \<open>{}\<close>. An error thrown in the loop leaves the mark popped
  and the stack as it was.\<close>

definition endStruct :: "jsenv \<Rightarrow> deserializer \<Rightarrow> helper_result" where
  "endStruct env s =
     (if marks s = [] then Inl (Error ''Struct mark stack underflow'', s)
      else let mark = last (marks s);
               s1 = s\<lparr>marks := butlast (marks s)\<rparr>;
               items = drop mark (stack s)
           in case struct_loop env items (VObject [] None) of
                Inl e \<Rightarrow> Inl (e, s1)
              | Inr struct \<Rightarrow>
                  Inr (s1\<lparr>stack := take mark (stack s) @ [struct], valueFlag := False\<rparr>))"

definition endBase64 :: "string \<Rightarrow> deserializer \<Rightarrow> helper_result" where
  "endBase64 d s = Inr ((push (VBuffer (base64_decode d)) s)\<lparr>valueFlag := False\<rparr>)"

definition endDateTime :: "jsenv \<Rightarrow> string \<Rightarrow> deserializer \<Rightarrow> helper_result" where
  "endDateTime env d s =
     (case decodeIso8601 (nowOffset env) d of
        Inl e \<Rightarrow> Inl (e, s)
      | Inr date \<Rightarrow> Inr ((push (VDate date) s)\<lparr>valueFlag := False\<rparr>))"

text \<open>The test \<open>/^-?\d+$/\<close> of \<open>endI8\<close>: an optional minus sign, then one digit or more,
  and nothing else.\<close>

definition isInteger :: "string \<Rightarrow> bool" where
  "isInteger d =
     (let ds = (if d \<noteq> [] \<and> hd d = CHR ''-'' then tl d else d)
      in ds \<noteq> [] \<and> list_all is_digit ds)"

definition endI8 :: "string \<Rightarrow> deserializer \<Rightarrow> helper_result" where
  "endI8 d s =
     (if \<not> isInteger d then Inl (Error (''Expected integer (I8) value but got '' @ quoted d), s)
      else endString d s)"

definition endValue :: "string \<Rightarrow> deserializer \<Rightarrow> helper_result" where
  "endValue d s = (if valueFlag s then endString d s else Inr s)"

definition endParams :: "deserializer \<Rightarrow> helper_result" where
  "endParams s = Inr (s\<lparr>responseType := Some Params\<rparr>)"

definition endFault :: "deserializer \<Rightarrow> helper_result" where
  "endFault s = Inr (s\<lparr>responseType := Some FaultKind\<rparr>)"

definition endMethodResponse :: "deserializer \<Rightarrow> helper_result" where
  "endMethodResponse s = Inr (s\<lparr>msgType := Some MethodResponse\<rparr>)"

definition endMethodName :: "string \<Rightarrow> deserializer \<Rightarrow> helper_result" where
  "endMethodName d s = Inr (s\<lparr>methodname := Some d\<rparr>)"

definition endMethodCall :: "deserializer \<Rightarrow> helper_result" where
  "endMethodCall s = Inr (s\<lparr>msgType := Some MethodCall\<rparr>)"

text \<open>The \<open>switch\<close> of \<open>onClosetag\<close>, in the order of the source.\<close>

definition dispatch :: "jsenv \<Rightarrow> string \<Rightarrow> string \<Rightarrow> deserializer \<Rightarrow> helper_result" where
  "dispatch env el d s =
     (if el = ''BOOLEAN'' then endBoolean d s
      else if el = ''INT'' \<or> el = ''I4'' then endInt d s
      else if el = ''I8'' then endI8 d s
      else if el = ''DOUBLE'' then endDouble d s
      else if el = ''STRING'' \<or> el = ''NAME'' then endString d s
      else if el = ''ARRAY'' then endArray s
      else if el = ''STRUCT'' then endStruct env s
      else if el = ''BASE64'' then endBase64 d s
      else if el = ''DATETIME.ISO8601'' then endDateTime env d s
      else if el = ''VALUE'' then endValue d s
      else if el = ''PARAMS'' then endParams s
      else if el = ''FAULT'' then endFault s
      else if el = ''METHODRESPONSE'' then endMethodResponse s
      else if el = ''METHODNAME'' then endMethodName d s
      else if el = ''METHODCALL'' then endMethodCall s
      else if el = ''NIL'' then endNil s
      else Inr s)"

text \<open>\<open>onClosetag\<close>: the buffered text is the chunks joined; an error a helper throws is
  caught and handed to \<open>onError\<close>, in the state the helper has left.\<close>

definition onClosetag :: "jsenv \<Rightarrow> string \<Rightarrow> deserializer \<Rightarrow> deserializer" where
  "onClosetag env el s =
     (case dispatch env el (concat (data s)) s of
        Inl (e, s') \<Rightarrow> onError (ThrownError e) s'
      | Inr s' \<Rightarrow> s')"

subsection \<open>The events of the tokenizer\<close>

datatype event =
    Opentag string
  | Closetag string
  | Text string
  | CData string
  | End
  | ErrorEvent thrown

fun handle :: "jsenv \<Rightarrow> event \<Rightarrow> deserializer \<Rightarrow> deserializer" where
  "handle env (Opentag name) s = onOpentag name s"
| "handle env (Closetag el) s = onClosetag env el s"
| "handle env (Text t) s = onText t s"
| "handle env (CData t) s = onCDATA t s"
| "handle env End s = onDone env s"
| "handle env (ErrorEvent msg) s = onError msg s"

text \<open>The state after a sequence of events, handled in order.\<close>

definition run :: "jsenv \<Rightarrow> event list \<Rightarrow> deserializer \<Rightarrow> deserializer" where
  "run env evs s = foldl (\<lambda>st ev. handle env ev st) s evs"

section \<open>The serializer\<close>

subsection \<open>The document writer\<close>

text \<open>
  The serializer writes through the node interface of \<open>xmlbuilder\<close>
  (types/xmlbuilder.d.ts). The document under construction is a tree; a node handle is the
  path of child positions from the root to an element. \<open>ele\<close> appends a new element under
  the handle and returns the handle of the new element; \<open>add_txt\<close> (the methods \<open>txt\<close> and \<open>text\<close>)
  appends a text node under the handle and \<open>add_cdata\<close> (the methods \<open>d\<close> and \<open>cdata\<close>) a
  CDATA node. A text node holds what it was given, a
  string or a number.
\<close>

datatype txtval = TStr string | TNum number

datatype xnode = Element string "xnode list" | TextNode txtval | CDataNode string

fun add_child :: "nat list \<Rightarrow> xnode \<Rightarrow> xnode \<Rightarrow> xnode" where
  "add_child [] c (Element n cs) = Element n (cs @ [c])"
| "add_child (i # p) c (Element n cs) =
     (if i < length cs then Element n (cs[i := add_child p c (cs ! i)]) else Element n cs)"
| "add_child p c (TextNode t) = TextNode t"
| "add_child p c (CDataNode t) = CDataNode t"

fun child_count :: "nat list \<Rightarrow> xnode \<Rightarrow> nat" where
  "child_count [] (Element n cs) = length cs"
| "child_count (i # p) (Element n cs) = (if i < length cs then child_count p (cs ! i) else 0)"
| "child_count p (TextNode t) = 0"
| "child_count p (CDataNode t) = 0"

definition ele :: "xnode \<Rightarrow> nat list \<Rightarrow> string \<Rightarrow> xnode \<times> nat list" where
  "ele doc xml name = (add_child xml (Element name []) doc, xml @ [child_count xml doc])"

definition add_txt :: "xnode \<Rightarrow> nat list \<Rightarrow> txtval \<Rightarrow> xnode" where
  "add_txt doc xml v = add_child xml (TextNode v) doc"

definition add_cdata :: "xnode \<Rightarrow> nat list \<Rightarrow> string \<Rightarrow> xnode" where
  "add_cdata doc xml v = add_child xml (CDataNode v) doc"

text \<open>Which of the optional CDATA writers a node offers (\<open>typeof str.d === "function"\<close>,
  \<open>typeof str.cdata === "function"\<close>); the nodes of \<open>xmlbuilder\<close> offer both.\<close>

record writer =
  has_d :: bool
  has_cdata :: bool

definition xmlbuilder :: writer where
  "xmlbuilder = \<lparr>has_d = True, has_cdata = True\<rparr>"

subsection \<open>Simple values\<close>

definition appendBoolean :: "bool \<Rightarrow> xnode \<Rightarrow> nat list \<Rightarrow> xnode" where
  "appendBoolean v doc xml =
     (let (doc1, b) = ele doc xml ''boolean'' in add_txt doc1 b (TNum (Finite (if v then 1 else 0))))"

text \<open>The test of the regular expression \<open>illegalChars\<close>, \<open>/^(?![^<&]*]]>[^<&]*)[^<&]*$/\<close>.
  The lookahead succeeds when some prefix free of \<open><\<close> and \<open>&\<close> is followed by \<open>]]>\<close>; the
  expression matches when the lookahead fails and the whole text is free of \<open><\<close> and \<open>&\<close>.\<close>

definition plain_char :: "char \<Rightarrow> bool" where
  "plain_char c = (c \<noteq> CHR ''<'' \<and> c \<noteq> CHR ''&'')"

definition lookahead :: "string \<Rightarrow> bool" where
  "lookahead v =
     list_ex (\<lambda>i. list_all plain_char (take i v) \<and> take 3 (drop i v) = '']]>'') [0..<Suc (length v)]"

definition illegalChars_test :: "string \<Rightarrow> bool" where
  "illegalChars_test v = (\<not> lookahead v \<and> list_all plain_char v)"

definition appendString :: "writer \<Rightarrow> string \<Rightarrow> xnode \<Rightarrow> nat list \<Rightarrow> xnode" where
  "appendString w v doc xml =
     (if length v = 0 then fst (ele doc xml ''string'')
      else if \<not> illegalChars_test v then
        (let (doc1, str) = ele doc xml ''string''
         in if has_d w then add_cdata doc1 str v
            else if has_cdata w then add_cdata doc1 str v
            else add_txt doc1 str (TStr v))
      else (let (doc1, str) = ele doc xml ''string'' in add_txt doc1 str (TStr v)))"

text \<open>\<open>value % 1 === 0\<close> holds for the finite integral numbers only (the remainder of NaN
  and of an infinity is NaN).\<close>

definition is_integral :: "number \<Rightarrow> bool" where
  "is_integral n = (case n of Finite q \<Rightarrow> q = of_int \<lfloor>q\<rfloor> | _ \<Rightarrow> False)"

definition appendNumber :: "number \<Rightarrow> xnode \<Rightarrow> nat list \<Rightarrow> xnode" where
  "appendNumber v doc xml =
     (if is_integral v then (let (doc1, i) = ele doc xml ''int'' in add_txt doc1 i (TNum v))
      else (let (doc1, d) = ele doc xml ''double'' in add_txt doc1 d (TNum v)))"

definition appendDatetime :: "DateFormatterOptions \<Rightarrow> jsenv \<Rightarrow> date \<Rightarrow> xnode \<Rightarrow> nat list \<Rightarrow> xnode" where
  "appendDatetime opts env v doc xml =
     (let (doc1, d) = ele doc xml ''dateTime.iso8601'' in add_txt doc1 d (TStr (encodeIso8601 opts env v)))"

definition appendBuffer :: "byte list \<Rightarrow> xnode \<Rightarrow> nat list \<Rightarrow> xnode" where
  "appendBuffer v doc xml =
     (let (doc1, b) = ele doc xml ''base64'' in add_txt doc1 b (TStr (base64_encode v)))"

text \<open>\<open>CustomType.serialize\<close>: an element named by \<open>tagName\<close> holding the raw text.\<close>

definition serialize_custom :: "string \<Rightarrow> string \<Rightarrow> xnode \<Rightarrow> nat list \<Rightarrow> xnode" where
  "serialize_custom tagName raw doc xml =
     (let (doc1, c) = ele doc xml tagName in add_txt doc1 c (TStr raw))"

subsection \<open>The traversal\<close>

text \<open>A frame of the explicit stack. The head of the list of frames is the top of the
  stack (the last element of the array in the source).\<close>

record frame =
  fvalue :: jsvalue
  fxml :: "nat list"
  findex :: "nat option"
  fkeys :: "string list option"

definition new_frame :: "jsvalue \<Rightarrow> nat list \<Rightarrow> frame" where
  "new_frame v xml = \<lparr>fvalue = v, fxml = xml, findex = None, fkeys = None\<rparr>"

definition Object_keys :: "jsvalue \<Rightarrow> string list" where
  "Object_keys v = (case v of VObject props proto \<Rightarrow> map fst props | _ \<Rightarrow> [])"

text \<open>Whether \<open>v instanceof Date\<close>, \<open>Buffer.isBuffer(v)\<close> or \<open>v instanceof CustomType\<close>
  holds of an ordinary object \<open>v\<close>: its prototype chain runs into a Date, a Buffer or a
  \<open>CustomType\<close>.\<close>

fun inherits_exotic :: "jsvalue \<Rightarrow> bool" where
  "inherits_exotic (VObject props proto) =
     (case proto of
        None \<Rightarrow> False
      | Some p \<Rightarrow>
          (case p of
             VDate d \<Rightarrow> True
           | VBuffer b \<Rightarrow> True
           | VCustom t r \<Rightarrow> True
           | VObject props' proto' \<Rightarrow> inherits_exotic p
           | _ \<Rightarrow> False))"
| "inherits_exotic v = False"

text \<open>\<open>getNextItemsFrame(frame)\<close> for a frame whose index is set: the frame of the next
  child if there is one, the frame with its index advanced, and the document. For a struct
  the handle given to the child is \<open>member\<close>, which the source binds to the \<open>name\<close> element
  (\<open>frame.xml.ele("member").ele("name")\<close>); the result of \<open>.text(key).up()\<close> is dropped.\<close>

definition getNextItemsFrame :: "frame \<Rightarrow> xnode \<Rightarrow> frame option \<times> frame \<times> xnode" where
  "getNextItemsFrame fr doc =
     (let index = (case findex fr of Some i \<Rightarrow> i | None \<Rightarrow> 0)
      in case fkeys fr of
           Some keys \<Rightarrow>
             if index < length keys then
               (let key = keys ! index;
                    (doc1, m) = ele doc (fxml fr) ''member'';
                    (doc2, member) = ele doc1 m ''name'';
                    doc3 = add_txt doc2 member (TStr key)
                in (Some (new_frame (get_member (fvalue fr) key) member),
                    fr\<lparr>findex := Some (index + 1)\<rparr>, doc3))
             else (None, fr, doc)
         | None \<Rightarrow>
             (case fvalue fr of
                VArray xs \<Rightarrow>
                  if index < length xs
                  then (Some (new_frame (xs ! index) (fxml fr)), fr\<lparr>findex := Some (index + 1)\<rparr>, doc)
                  else (None, fr, doc)
              | _ \<Rightarrow> (None, fr, doc)))"

text \<open>After \<open>getNextItemsFrame\<close>: push the next frame above the current one, or pop the
  current one.\<close>

definition advance :: "frame \<Rightarrow> frame list \<Rightarrow> xnode \<Rightarrow> xnode \<times> frame list" where
  "advance cur rest doc =
     (case getNextItemsFrame cur doc of
        (Some nxt, cur', doc') \<Rightarrow> (doc', nxt # cur' # rest)
      | (None, cur', doc') \<Rightarrow> (doc', rest))"

text \<open>One turn of the \<open>while\<close> loop of \<open>serializeValue\<close> on the top frame \<open>cur\<close>. The
  \<open>value\<close> element is created before the \<open>switch\<close>, so a value of an unsupported kind
  leaves an empty \<open>value\<close> element. An ordinary object that passes one of the three
  \<open>instanceof\<close> tests is handed to the methods of a Date, a Buffer or a \<open>CustomType\<close>;
  what they do with it is the environment's: they throw, or give the name and the text of
  the element to write.\<close>

definition step :: "writer \<Rightarrow> DateFormatterOptions \<Rightarrow> jsenv \<Rightarrow> frame \<Rightarrow> frame list \<Rightarrow> xnode
    \<Rightarrow> err + xnode \<times> frame list" where
  "step w opts env cur rest doc =
     (if findex cur \<noteq> None then Inr (advance cur rest doc)
      else
        (let (doc1, valueNode) = ele doc (fxml cur) ''value''
         in case fvalue cur of
              VBool b \<Rightarrow> Inr (appendBoolean b doc1 valueNode, rest)
            | VString v \<Rightarrow> Inr (appendString w v doc1 valueNode, rest)
            | VNumber n \<Rightarrow> Inr (appendNumber n doc1 valueNode, rest)
            | VNull \<Rightarrow> Inr (fst (ele doc1 valueNode ''nil''), rest)
            | VDate d \<Rightarrow> Inr (appendDatetime opts env d doc1 valueNode, rest)
            | VBuffer b \<Rightarrow> Inr (appendBuffer b doc1 valueNode, rest)
            | VCustom t r \<Rightarrow> Inr (serialize_custom t r doc1 valueNode, rest)
            | VArray xs \<Rightarrow>
                (let (doc2, a) = ele doc1 valueNode ''array'';
                     (doc3, dat) = ele doc2 a ''data''
                 in Inr (advance (cur\<lparr>fxml := dat, findex := Some 0\<rparr>) rest doc3))
            | VObject props proto \<Rightarrow>
                if inherits_exotic (fvalue cur) then
                  (case exoticElement env (fvalue cur) of
                     Inl e \<Rightarrow> Inl e
                   | Inr (name, text) \<Rightarrow>
                       Inr (let (doc2, c) = ele doc1 valueNode name in add_txt doc2 c (TStr text),
                            rest))
                else
                  (let (doc2, st) = ele doc1 valueNode ''struct''
                   in Inr (advance (cur\<lparr>fxml := st, fkeys := Some (Object_keys (fvalue cur)),
                                        findex := Some 0\<rparr>) rest doc2))
            | VUndefined \<Rightarrow> Inr (doc1, rest)))"

text \<open>The work a value and a frame still stand for; one turn of the loop lowers the total.\<close>

fun weight :: "jsvalue \<Rightarrow> nat" where
  "weight (VArray xs) = 2 + sum_list (map (\<lambda>x. weight x + 1) xs)"
| "weight (VObject kvs proto) = 2 + length kvs * (1 + foldr max (map (\<lambda>kv. weight (snd kv)) kvs) 0)"
| "weight _ = 1"

definition frame_weight :: "frame \<Rightarrow> nat" where
  "frame_weight fr =
     (case findex fr of
        Some i \<Rightarrow>
          1 + (case fkeys fr of
                 Some keys \<Rightarrow> sum_list (map (\<lambda>k. weight (get_member (fvalue fr) k) + 1) (drop i keys))
               | None \<Rightarrow> (case fvalue fr of
                            VArray xs \<Rightarrow> sum_list (map (\<lambda>x. weight x + 1) (drop i xs))
                          | _ \<Rightarrow> 0))
      | None \<Rightarrow>
          (case (fvalue fr, fkeys fr) of
             (VArray xs, Some keys) \<Rightarrow> 2 + 2 * length keys
           | _ \<Rightarrow> weight (fvalue fr)))"

lemma weight_pos: "0 < weight v"
  by (cases v) simp_all

lemma weight_member_le:
  assumes "k \<in> fst ` set kvs"
  shows "weight (get_member (VObject kvs proto) k) \<le> foldr max (map (\<lambda>kv. weight (snd kv)) kvs) 0"
proof -
  from assms obtain v where v: "map_of kvs k = Some v"
    by (metis domD dom_map_of_conv_image_fst)
  then have "(k, v) \<in> set kvs" by (rule map_of_SomeD)
  then have "weight v \<le> foldr max (map (\<lambda>kv. weight (snd kv)) kvs) 0"
    by (induction kvs) auto
  with v show ?thesis by simp
qed

lemma sum_members_le:
  "set ks \<subseteq> fst ` set kvs \<Longrightarrow>
   sum_list (map (\<lambda>k. weight (get_member (VObject kvs proto) k) + 1) ks)
     \<le> length ks * (1 + foldr max (map (\<lambda>kv. weight (snd kv)) kvs) 0)"
proof (induction ks)
  case Nil
  then show ?case by simp
next
  case (Cons k ks)
  with weight_member_le [of k kvs proto] show ?case by simp
qed

lemma sum_undefined_members:
  "sum_list (map (\<lambda>k. Suc (Suc 0)) ks) = 2 * length ks"
  by (induction ks) simp_all

lemma frame_weight_new [simp]: "frame_weight (new_frame v xml) = weight v"
  by (cases v) (simp_all add: frame_weight_def new_frame_def)

lemma frame_weight_keys:
  "findex fr = Some i \<Longrightarrow> fkeys fr = Some keys \<Longrightarrow>
     frame_weight fr = 1 + sum_list (map (\<lambda>k. weight (get_member (fvalue fr) k) + 1) (drop i keys))"
  by (simp add: frame_weight_def)

lemma frame_weight_array:
  "findex fr = Some i \<Longrightarrow> fkeys fr = None \<Longrightarrow> fvalue fr = VArray xs \<Longrightarrow>
     frame_weight fr = 1 + sum_list (map (\<lambda>x. weight x + 1) (drop i xs))"
  by (simp add: frame_weight_def)

lemma frame_weight_iter_pos: "findex fr = Some i \<Longrightarrow> 0 < frame_weight fr"
  by (simp add: frame_weight_def)

lemma frame_weight_fresh:
  "findex fr = None \<Longrightarrow>
     frame_weight fr = (case (fvalue fr, fkeys fr) of
             (VArray xs, Some keys) \<Rightarrow> 2 + 2 * length keys
           | _ \<Rightarrow> weight (fvalue fr))"
  by (simp add: frame_weight_def)

lemma drop_sum:
  "i < length xs \<Longrightarrow> sum_list (map f (drop i xs)) = f (xs ! i) + sum_list (map f (drop (Suc i) xs))"
  by (simp add: Cons_nth_drop_Suc [symmetric])

lemma advance_decreases:
  assumes "findex cur = Some i"
  shows "sum_list (map frame_weight (snd (advance cur rest doc)))
           < frame_weight cur + sum_list (map frame_weight rest)"
proof (cases "fkeys cur")
  case None
  show ?thesis
  proof (cases "\<exists>xs. fvalue cur = VArray xs \<and> i < length xs")
    case True
    then obtain xs where xs: "fvalue cur = VArray xs" "i < length xs" by blast
    have "frame_weight (cur\<lparr>findex := Some (Suc i)\<rparr>)
        = 1 + sum_list (map (\<lambda>x. weight x + 1) (drop (Suc i) xs))"
      using None xs by (intro frame_weight_array) simp_all
    moreover have "frame_weight cur = 1 + sum_list (map (\<lambda>x. weight x + 1) (drop i xs))"
      using assms None xs by (intro frame_weight_array) simp_all
    ultimately show ?thesis
      using assms None xs
      by (simp add: advance_def getNextItemsFrame_def drop_sum [of i xs])
  next
    case False
    then have "snd (advance cur rest doc) = rest"
      using assms None
      by (cases "fvalue cur") (auto simp: advance_def getNextItemsFrame_def)
    then show ?thesis using frame_weight_iter_pos [OF assms] by simp
  qed
next
  case (Some keys)
  show ?thesis
  proof (cases "i < length keys")
    case True
    have "frame_weight (cur\<lparr>findex := Some (Suc i)\<rparr>)
        = 1 + sum_list (map (\<lambda>k. weight (get_member (fvalue cur) k) + 1) (drop (Suc i) keys))"
      using Some by (subst frame_weight_keys [where i = "Suc i" and keys = keys]) simp_all
    moreover have "frame_weight cur
        = 1 + sum_list (map (\<lambda>k. weight (get_member (fvalue cur) k) + 1) (drop i keys))"
      using assms Some by (rule frame_weight_keys)
    ultimately show ?thesis
      using assms Some True
      by (simp add: advance_def getNextItemsFrame_def Let_def drop_sum [of i keys]
          split: prod.splits)
  next
    case False
    then have "snd (advance cur rest doc) = rest"
      using assms Some by (simp add: advance_def getNextItemsFrame_def)
    then show ?thesis using frame_weight_iter_pos [OF assms] by simp
  qed
qed

lemma step_decreases:
  assumes "step w opts env cur rest doc = Inr (doc', st')"
  shows "sum_list (map frame_weight st') < frame_weight cur + sum_list (map frame_weight rest)"
proof (cases "findex cur")
  case (Some i)
  then have "st' = snd (advance cur rest doc)" using assms by (auto simp: step_def)
  then show ?thesis using advance_decreases [OF Some] by simp
next
  case None
  show ?thesis
  proof (cases "fvalue cur")
    case (VArray xs)
    have a: "sum_list (map frame_weight (snd (advance (cur\<lparr>fxml := p, findex := Some 0\<rparr>) rest d)))
        < frame_weight (cur\<lparr>fxml := p, findex := Some 0\<rparr>) + sum_list (map frame_weight rest)" for p d
      by (rule advance_decreases) simp
    have b: "frame_weight (cur\<lparr>fxml := p, findex := Some 0\<rparr>) \<le> frame_weight cur" for p
    proof (cases "fkeys cur")
      case None
      then show ?thesis
        using \<open>findex cur = None\<close> VArray
        by (simp add: frame_weight_fresh
            frame_weight_array [where i = 0 and xs = xs and fr = "cur\<lparr>fxml := p, findex := Some 0\<rparr>"])
    next
      case (Some keys)
      then show ?thesis
        using \<open>findex cur = None\<close> VArray
        by (simp add: frame_weight_fresh sum_undefined_members
            frame_weight_keys [where i = 0 and keys = keys and fr = "cur\<lparr>fxml := p, findex := Some 0\<rparr>"])
    qed
    have "\<exists>p d. advance (cur\<lparr>fxml := p, findex := Some 0\<rparr>) rest d = (doc', st')"
      using assms None VArray by (auto simp: step_def Let_def split: prod.splits)
    then obtain p d where "advance (cur\<lparr>fxml := p, findex := Some 0\<rparr>) rest d = (doc', st')"
      by blast
    then have "st' = snd (advance (cur\<lparr>fxml := p, findex := Some 0\<rparr>) rest d)" by simp
    then show ?thesis
      using a [of p d] b [of p] by simp
  next
    case (VObject kvs proto)
    have a: "sum_list (map frame_weight (snd (advance
           (cur\<lparr>fxml := p, fkeys := Some (map fst kvs), findex := Some 0\<rparr>) rest d)))
        < frame_weight (cur\<lparr>fxml := p, fkeys := Some (map fst kvs), findex := Some 0\<rparr>)
          + sum_list (map frame_weight rest)" for p d
      by (rule advance_decreases) simp
    have b: "frame_weight (cur\<lparr>fxml := p, fkeys := Some (map fst kvs), findex := Some 0\<rparr>)
        \<le> frame_weight cur" for p
      using None VObject sum_members_le [of "map fst kvs" kvs proto]
      by (simp add: frame_weight_fresh
          frame_weight_keys [where i = 0 and keys = "map fst kvs"
            and fr = "cur\<lparr>fxml := p, fkeys := Some (map fst kvs), findex := Some 0\<rparr>"])
    show ?thesis
    proof (cases "inherits_exotic (fvalue cur)")
      case True
      then have "st' = rest"
        using assms None VObject
        by (auto simp: step_def Let_def split: prod.splits sum.splits)
      moreover have "0 < frame_weight cur"
        using None VObject by (simp add: frame_weight_fresh)
      ultimately show ?thesis by simp
    next
      case False
      then have "\<exists>p d. advance (cur\<lparr>fxml := p, fkeys := Some (map fst kvs), findex := Some 0\<rparr>) rest d
          = (doc', st')"
        using assms None VObject
        by (auto simp: step_def Let_def Object_keys_def split: prod.splits)
      then obtain p d where
        "advance (cur\<lparr>fxml := p, fkeys := Some (map fst kvs), findex := Some 0\<rparr>) rest d = (doc', st')"
        by blast
      then have "st' = snd (advance (cur\<lparr>fxml := p, fkeys := Some (map fst kvs), findex := Some 0\<rparr>) rest d)"
        by simp
      then show ?thesis using a [of p d] b [of p] by simp
    qed
  qed (use assms None weight_pos in
      \<open>auto simp add: step_def Let_def frame_weight_fresh split: prod.splits\<close>)
qed

lemma step_decreases_snd:
  "step w opts env cur rest doc = Inr b \<Longrightarrow>
   sum_list (map frame_weight (snd b)) < frame_weight cur + sum_list (map frame_weight rest)"
  by (cases b) (simp add: step_decreases)

text \<open>The \<open>while\<close> loop of \<open>serializeValue\<close>: it runs until the stack of frames is empty,
  or until a turn throws.\<close>

function serialize_loop :: "writer \<Rightarrow> DateFormatterOptions \<Rightarrow> jsenv \<Rightarrow> xnode \<Rightarrow> frame list \<Rightarrow> err + xnode" where
  "serialize_loop w opts env doc [] = Inr doc"
| "serialize_loop w opts env doc (cur # rest) =
     (case step w opts env cur rest doc of
        Inl e \<Rightarrow> Inl e
      | Inr (doc', st') \<Rightarrow> serialize_loop w opts env doc' st')"
  by pat_completeness auto
termination
  by (relation "measure (\<lambda>(w, opts, env, doc, st). sum_list (map frame_weight st))")
    (simp_all add: case_prod_beta step_decreases_snd)

definition serializeValue :: "writer \<Rightarrow> DateFormatterOptions \<Rightarrow> jsenv \<Rightarrow> jsvalue \<Rightarrow> xnode \<Rightarrow> nat list
    \<Rightarrow> err + xnode" where
  "serializeValue w opts env v doc xml = serialize_loop w opts env doc [new_frame v xml]"

subsection \<open>The three documents\<close>

text \<open>\<open>xmlBuilder.create(name)\<close> starts a document whose root element has the handle \<open>[]\<close>.
  Each function returns the document that \<open>xml.doc().toString()\<close> writes out, or the
  error that \<open>serializeValue\<close> has thrown.\<close>

definition create :: "string \<Rightarrow> xnode" where
  "create name = Element name []"

text \<open>\<open>params.forEach\<close>: a \<open>param\<close> element for each parameter, in order.\<close>

fun serialize_params :: "writer \<Rightarrow> DateFormatterOptions \<Rightarrow> jsenv \<Rightarrow> jsvalue list \<Rightarrow> xnode \<Rightarrow> nat list
    \<Rightarrow> err + xnode" where
  "serialize_params w opts env [] doc xml = Inr doc"
| "serialize_params w opts env (param # params) doc xml =
     (let (doc', p) = ele doc xml ''param''
      in case serializeValue w opts env param doc' p of
           Inl e \<Rightarrow> Inl e
         | Inr doc'' \<Rightarrow> serialize_params w opts env params doc'' xml)"

definition serializeMethodCall :: "writer \<Rightarrow> DateFormatterOptions \<Rightarrow> jsenv \<Rightarrow> string \<Rightarrow> jsvalue list
    \<Rightarrow> err + xnode" where
  "serializeMethodCall w opts env method params =
     (let (doc1, mn) = ele (create ''methodCall'') [] ''methodName'';
          doc2 = add_txt doc1 mn (TStr method);
          (doc3, xml) = ele doc2 [] ''params''
      in serialize_params w opts env params doc3 xml)"

definition serializeMethodResponse :: "writer \<Rightarrow> DateFormatterOptions \<Rightarrow> jsenv \<Rightarrow> jsvalue \<Rightarrow> err + xnode" where
  "serializeMethodResponse w opts env result =
     (let (doc1, ps) = ele (create ''methodResponse'') [] ''params'';
          (doc2, xml) = ele doc1 ps ''param''
      in serializeValue w opts env result doc2 xml)"

definition serializeFault :: "writer \<Rightarrow> DateFormatterOptions \<Rightarrow> jsenv \<Rightarrow> jsvalue \<Rightarrow> err + xnode" where
  "serializeFault w opts env fault =
     (let (doc1, xml) = ele (create ''methodResponse'') [] ''fault''
      in serializeValue w opts env fault doc1 xml)"

section \<open>From the document to the events\<close>

text \<open>
  Modelled from the spec: the two external collaborators between the serializer and the
  deserializer, the document writer that turns the tree into text and the tokenizer that
  turns the text into events (section 6 of the specification). The tokenizer delivers the
  events in document order with the tag names in upper case; an element without content
  gives its open tag and its close tag; a text node gives a \<open>text\<close> event with the text
  the node was given (escaped by the writer and unescaped by the tokenizer), a number as
  the text JavaScript gives it; a CDATA node gives a \<open>cdata\<close> event; an empty text gives no
  event. The XML declaration gives no event that the deserializer listens to. What the
  two do with a CDATA section that contains the terminator \<open>]]>\<close> is not modelled.
\<close>

definition upper_char :: "char \<Rightarrow> char" where
  "upper_char c =
     (if 97 \<le> (of_char c :: nat) \<and> (of_char c :: nat) \<le> 122 then char_of ((of_char c :: nat) - 32) else c)"

definition text_of :: "jsenv \<Rightarrow> txtval \<Rightarrow> string" where
  "text_of env v = (case v of TStr s \<Rightarrow> s | TNum n \<Rightarrow> Number_toString env n)"

fun events_of :: "jsenv \<Rightarrow> xnode \<Rightarrow> event list" where
  "events_of env (Element n cs) =
     Opentag (map upper_char n) # concat (map (events_of env) cs) @ [Closetag (map upper_char n)]"
| "events_of env (TextNode v) = (if text_of env v = [] then [] else [Text (text_of env v)])"
| "events_of env (CDataNode s) = (if s = [] then [] else [CData s])"

text \<open>The events of a whole document: those of the root element, then \<open>end\<close>.\<close>

definition document_events :: "jsenv \<Rightarrow> xnode \<Rightarrow> event list" where
  "document_events env doc = events_of env doc @ [End]"

section \<open>The vocabulary of the specification\<close>

definition all_digits :: "string \<Rightarrow> bool" where
  "all_digits ds = list_all (\<lambda>c. c \<in> set ''0123456789'') ds"

text \<open>An integer-shaped text: an optional leading minus, then digits only, at least one.\<close>

fun integer_shaped :: "string \<Rightarrow> bool" where
  "integer_shaped [] = False"
| "integer_shaped (c # cs) = (if c = CHR ''-'' then cs \<noteq> [] \<and> all_digits cs else all_digits (c # cs))"

text \<open>The text of a base-10 signed integer: an optional sign, then digits only, at least
  one. Every other text is non-numeric.\<close>

fun integer_text :: "string \<Rightarrow> bool" where
  "integer_text [] = False"
| "integer_text (c # cs) =
     (if c = CHR ''-'' \<or> c = CHR ''+'' then cs \<noteq> [] \<and> all_digits cs else all_digits (c # cs))"

text \<open>A process whose clock is pinned to UTC; the texts of the environment are not used
  where it appears.\<close>

definition utc_env :: jsenv where
  "utc_env = \<lparr>nowOffset = 0, tzOffset = (\<lambda>d. 0), numberText = (\<lambda>q. []),
     dateText = (\<lambda>d. []), bufferText = (\<lambda>b. []),
     exoticText = (\<lambda>b v. Inl (TypeError ''Cannot convert object to primitive value'')),
     exoticSet = (\<lambda>obj k v. Inr obj),
     exoticElement = (\<lambda>obj. Inl (TypeError ''this is not a Date object.''))\<rparr>"

text \<open>A text that contains the CDATA terminator \<open>]]>\<close>.\<close>

definition has_terminator :: "string \<Rightarrow> bool" where
  "has_terminator v = list_ex (\<lambda>i. take 3 (drop i v) = '']]>'') [0..<length v]"

text \<open>The content the specification gives the \<open>string\<close> element of a text: nothing for the
  empty text, a CDATA section for a text with \<open><\<close> or \<open>&\<close>, the plain text otherwise.\<close>

definition string_content_spec :: "string \<Rightarrow> xnode list" where
  "string_content_spec v =
     (if v = [] then []
      else if CHR ''<'' \<in> set v \<or> CHR ''&'' \<in> set v then [CDataNode v]
      else [TextNode (TStr v)])"

text \<open>The content the serializer writes: as above, except that a text with the terminator
  \<open>]]>\<close> is a CDATA section too.\<close>

definition string_content :: "string \<Rightarrow> xnode list" where
  "string_content v =
     (if v = [] then []
      else if CHR ''<'' \<in> set v \<or> CHR ''&'' \<in> set v \<or> has_terminator v then [CDataNode v]
      else [TextNode (TStr v)])"

text \<open>The events of the method response whose only parameter is a struct with two
  members of the name \<open>n\<close>, the first holding the string \<open>a\<close> and the second the string
  \<open>b\<close>, followed by the end of the stream.\<close>

definition member_events :: "string \<Rightarrow> string \<Rightarrow> event list" where
  "member_events n v =
     [Opentag ''MEMBER'', Opentag ''NAME'', Text n, Closetag ''NAME'',
      Opentag ''VALUE'', Opentag ''STRING'', Text v, Closetag ''STRING'', Closetag ''VALUE'',
      Closetag ''MEMBER'']"

definition two_member_response :: "string \<Rightarrow> event list" where
  "two_member_response n =
     [Opentag ''METHODRESPONSE'', Opentag ''PARAMS'', Opentag ''PARAM'', Opentag ''VALUE'',
      Opentag ''STRUCT'']
     @ member_events n ''a'' @ member_events n ''b''
     @ [Closetag ''STRUCT'', Closetag ''VALUE'', Closetag ''PARAM'', Closetag ''PARAMS'',
        Closetag ''METHODRESPONSE'', End]"

text \<open>A handle that leads to an element of the document.\<close>

fun valid_path :: "nat list \<Rightarrow> xnode \<Rightarrow> bool" where
  "valid_path [] (Element n cs) = True"
| "valid_path (i # p) (Element n cs) = (i < length cs \<and> valid_path p (cs ! i))"
| "valid_path p (TextNode t) = False"
| "valid_path p (CDataNode t) = False"




section \<open>Facts about the text helpers\<close>

lemma digit_codes: "(48 \<le> n \<and> n \<le> 57) = (n \<in> {48,49,50,51,52,53,54,55,56,57::nat})"
  by (simp only: insert_iff empty_iff) arith

lemma digit_chars:
  "char_of (48::nat) = CHR ''0''" "char_of (49::nat) = CHR ''1''" "char_of (50::nat) = CHR ''2''"
  "char_of (51::nat) = CHR ''3''" "char_of (52::nat) = CHR ''4''" "char_of (53::nat) = CHR ''5''"
  "char_of (54::nat) = CHR ''6''" "char_of (55::nat) = CHR ''7''" "char_of (56::nat) = CHR ''8''"
  "char_of (57::nat) = CHR ''9''"
  by code_simp+

lemma is_digit_iff: "is_digit c = (c \<in> set ''0123456789'')"
proof
  assume "is_digit c"
  then have "(of_char c :: nat) \<in> {48,49,50,51,52,53,54,55,56,57}"
    by (simp only: is_digit_def digit_codes)
  then have "char_of (of_char c :: nat) \<in> char_of ` {48,49,50,51,52,53,54,55,56,57::nat}"
    by (rule imageI)
  then show "c \<in> set ''0123456789''" by (simp add: digit_chars)
next
  assume "c \<in> set ''0123456789''"
  then show "is_digit c" by (auto simp: is_digit_def)
qed

lemma all_digits_iff: "all_digits ds = list_all is_digit ds"
  by (simp add: all_digits_def is_digit_iff[abs_def])

lemma sign_not_digit: "\<not> is_digit CHR ''-''" "\<not> is_digit CHR ''+''"
  by (simp_all add: is_digit_def)

lemma isInteger_iff: "isInteger t = integer_shaped t"
  by (cases t) (auto simp: isInteger_def all_digits_iff sign_not_digit)

section \<open>Facts about the callback and the error handler\<close>

lemma call_callback_fields [simp]:
  "error (call_callback e r s) = error s"
  "stack (call_callback e r s) = stack s"
  "marks (call_callback e r s) = marks s"
  "data (call_callback e r s) = data s"
  "valueFlag (call_callback e r s) = valueFlag s"
  "callback (call_callback e r s) = callback s"
  "msgType (call_callback e r s) = msgType s"
  "responseType (call_callback e r s) = responseType s"
  "methodname (call_callback e r s) = methodname s"
  by (simp_all add: call_callback_def split: option.splits wrapper.splits)

lemma call_callback_error:
  "call_callback (Some e) r s =
     (case callback s of None \<Rightarrow> s | Some w \<Rightarrow> s\<lparr>delivered := delivered s @ [CbError e]\<rparr>)"
  by (simp add: call_callback_def response_outcome_def call_outcome_def
      split: option.splits wrapper.splits)

lemma onError_fresh:
  "error s = None \<Longrightarrow>
     onError msg s = call_callback (Some (as_error msg)) [] (s\<lparr>error := Some (as_error msg)\<rparr>)"
  by (simp add: onError_def)

lemma onError_recorded: "error s = Some e \<Longrightarrow> onError msg s = s"
  by (simp add: onError_def)

section \<open>Closing an I8 element\<close>

text \<open>
  Claim C4. Closing an \<open>I8\<close> element succeeds exactly when the buffered text is
  integer-shaped (an optional leading minus followed by digits only, at least one, and
  nothing else). On success the raw text itself is pushed, as a string and not as a
  number, and the bare-value flag is cleared. Otherwise the decode error is recorded and
  delivered to the callback, and the value stack is left as it was.
\<close>

theorem endI8_validates:
  assumes "error s = None" and "concat (data s) = t"
  shows "(integer_shaped t \<longrightarrow>
            onClosetag env ''I8'' s = s\<lparr>stack := stack s @ [VString t], valueFlag := False\<rparr>)
       \<and> (\<not> integer_shaped t \<longrightarrow>
            error (onClosetag env ''I8'' s)
              = Some (Error (''Expected integer (I8) value but got '' @ quoted t))
            \<and> stack (onClosetag env ''I8'' s) = stack s
            \<and> delivered (onClosetag env ''I8'' s)
              = (case callback s of
                   None \<Rightarrow> delivered s
                 | Some w \<Rightarrow> delivered s
                     @ [CbError (Error (''Expected integer (I8) value but got '' @ quoted t))]))"
  using assms
  by (simp add: onClosetag_def dispatch_def endI8_def endString_def push_def isInteger_iff
      onError_fresh call_callback_error split: option.splits)

theorem endI8_validates_witness:
  "error ((deserializeMethodResponse (new_deserializer None))\<lparr>data := [''-12'', ''3'']\<rparr>) = None
   \<and> concat (data ((deserializeMethodResponse (new_deserializer None))\<lparr>data := [''-12'', ''3'']\<rparr>)) = ''-123''
   \<and> integer_shaped ''-123''
   \<and> stack (onClosetag utc_env ''I8''
        ((deserializeMethodResponse (new_deserializer None))\<lparr>data := [''-12'', ''3'']\<rparr>))
      = [VString ''-123'']
   \<and> \<not> integer_shaped ''12.5''
   \<and> delivered (onClosetag utc_env ''I8''
        ((deserializeMethodResponse (new_deserializer None))\<lparr>data := [''12.5'']\<rparr>))
      = [CbError (Error (''Expected integer (I8) value but got '' @ quoted ''12.5''))]"
  using endI8_validates [of "(deserializeMethodResponse (new_deserializer None))\<lparr>data := [''-12'', ''3'']\<rparr>"
      "''-123''" utc_env]
    endI8_validates [of "(deserializeMethodResponse (new_deserializer None))\<lparr>data := [''12.5'']\<rparr>"
      "''12.5''" utc_env]
  by (simp add: new_deserializer_def deserializeMethodResponse_def all_digits_def)

section \<open>Rounding leaves the safe integers as they are\<close>

lemma round_half_even_int: "round_half_even (of_int j) = j"
  by (simp add: round_half_even_def)

lemma quotient_of_of_int: "quotient_of (of_int k) = (k, 1)"
  by (metis Rat.of_int_def quotient_of_int)

lemma bitlen_one: "bitlen 1 = 1"
  by (simp add: bitlen_alt_def)

lemma floor_log2_int:
  assumes "0 < k"
  shows "floor_log2 (of_int k) = bitlen k - 1"
proof -
  have b: "2 ^ nat (bitlen k - 1) \<le> k" using bitlen_bounds[OF assms] by simp
  have g: "1 \<le> bitlen k" using assms bitlen_ge_iff_power[of 1 k] by simp
  have "(2::rat) ^ nat (bitlen k - 1) = of_int (2 ^ nat (bitlen k - 1))" by simp
  also have "\<dots> \<le> of_int k" using b by (simp only: of_int_le_iff)
  finally have "pow2 (bitlen k - 1) \<le> of_int k" using g by (simp add: pow2_def)
  then show ?thesis
    by (simp add: floor_log2_def quotient_of_of_int bitlen_one)
qed

lemma to_double_pos_int:
  assumes "0 < k" and "k \<le> 2 ^ 53"
  shows "to_double (of_int k) = Finite (of_int k)"
proof -
  define L where "L = bitlen k - 1"
  have g: "0 \<le> L" using assms(1) bitlen_ge_iff_power[of 1 k] by (simp add: L_def)
  have "bitlen k \<le> 54" using assms(2) bitlen_le_iff_power[of k 54] by simp
  then have u: "L \<le> 53" by (simp add: L_def)
  have lo: "2 ^ nat L \<le> k" using bitlen_bounds[OF assms(1)] by (simp add: L_def)
  have fl: "floor_log2 (of_int k) = L" using floor_log2_int[OF assms(1)] by (simp add: L_def)
  define e where "e = max (L - 52) (- 1074)"
  have e: "e = L - 52" using g by (simp add: e_def)
  have "\<exists>j. (of_int k :: rat) / pow2 e = of_int j"
  proof (cases "L \<le> 52")
    case True
    then have "pow2 e * 2 ^ nat (52 - L) = 1"
      using e by (cases "L = 52") (simp_all add: pow2_def)
    then have "(of_int k :: rat) / pow2 e = of_int k * 2 ^ nat (52 - L)"
      by (metis divide_divide_eq_right div_by_1 mult.commute nonzero_mult_div_cancel_left
          zero_neq_one mult_zero_left)
    also have "\<dots> = of_int (k * 2 ^ nat (52 - L))" by simp
    finally show ?thesis by blast
  next
    case False
    with u have L: "L = 53" by simp
    with lo assms(2) have "k = 2 ^ 53" by simp
    then have "(of_int k :: rat) / pow2 e = of_int (2 ^ 52)"
      using e L by (simp add: pow2_def)
    then show ?thesis by blast
  qed
  then obtain j where j: "(of_int k :: rat) / pow2 e = of_int j" by blast
  have pe: "pow2 e \<noteq> 0" by (simp add: pow2_def)
  have v: "of_int j * pow2 e = (of_int k :: rat)"
    using j pe by (metis nonzero_divide_eq_eq)
  have "(of_int k :: rat) \<le> of_int (2 ^ 53)" using assms(2) by (simp only: of_int_le_iff)
  also have "\<dots> < 2 ^ 1024" by simp
  finally have small: "\<not> (2 ^ 1024 \<le> (of_int k :: rat))" by simp
  have a: "\<bar>of_int k :: rat\<bar> = of_int k" using assms(1) by simp
  have nz: "(of_int k :: rat) \<noteq> 0" "\<not> (of_int k :: rat) < 0" using assms(1) by simp_all
  show ?thesis
    unfolding to_double_def Let_def a fl e_def[symmetric] j round_half_even_int v
    using nz small by simp
qed

lemma to_double_neg: "to_double (- q) = (case to_double q of Finite v \<Rightarrow> Finite (- v)
   | PosInfinity \<Rightarrow> NegInfinity | NegInfinity \<Rightarrow> PosInfinity | NaN \<Rightarrow> NaN)"
  by (cases "q = 0"; cases "q < 0") (auto simp: to_double_def Let_def)

lemma to_double_int:
  assumes "\<bar>k\<bar> \<le> 2 ^ 53"
  shows "to_double (of_int k) = Finite (of_int k)"
proof (cases "0 < k")
  case True
  then show ?thesis using assms by (simp add: to_double_pos_int)
next
  case False
  show ?thesis
  proof (cases "k = 0")
    case True
    then show ?thesis by (simp add: to_double_def)
  next
    case n: False
    with False have "0 < - k" "- k \<le> 2 ^ 53" using assms by simp_all
    then have "to_double (of_int (- k)) = Finite (of_int (- k))" by (rule to_double_pos_int)
    then have "to_double (- (- of_int k)) = Finite (of_int k)"
      by (subst to_double_neg) simp
    then show ?thesis by simp
  qed
qed

section \<open>Facts about parseInt\<close>

lemma to_double_not_NaN: "to_double q \<noteq> NaN"
  by (simp add: to_double_def Let_def)

lemma parseInt_NaN_iff:
  "(parseInt t = NaN) = (takeWhile is_digit (skip_sign (dropWhile is_js_whitespace t)) = [])"
  by (simp add: parseInt_def Let_def to_double_not_NaN)

lemmas text_eval = is_digit_def is_js_whitespace_def skip_sign_def is_negative_def
  digits_value_def digit_val_def all_digits_def quoted_def

lemma parseInt_12abc: "parseInt ''12abc'' = Finite 12"
  using to_double_int[of 12] by (simp add: parseInt_def text_eval)

section \<open>Closing an INT or I4 element\<close>

text \<open>
  Claim C3, as amended. Closing an \<open>INT\<close> or \<open>I4\<close> element skips leading white space and an
  optional sign in the buffered text and reads the longest run of decimal digits that
  follows. When that run is not empty its value, with the sign, is pushed as a number
  (\<open>parseInt\<close> ignores whatever follows the digits) and the bare-value flag is cleared;
  the decode error is raised exactly when the run is empty, and then the value stack is
  left as it was.
\<close>

theorem endInt_parses_digit_prefix:
  assumes "error s = None" and "concat (data s) = t" and "el = ''INT'' \<or> el = ''I4''"
    and "z = takeWhile is_digit (skip_sign (dropWhile is_js_whitespace t))"
  shows "(z \<noteq> [] \<longrightarrow>
            onClosetag env el s
              = s\<lparr>stack := stack s
                     @ [VNumber (to_double ((if is_negative (dropWhile is_js_whitespace t) then - 1 else 1)
                                             * of_int (digits_value z)))],
                   valueFlag := False\<rparr>)
       \<and> (z = [] \<longrightarrow>
            error (onClosetag env el s) = Some (Error (''Expected an integer but got '' @ quoted t))
            \<and> stack (onClosetag env el s) = stack s
            \<and> delivered (onClosetag env el s)
              = (case callback s of
                   None \<Rightarrow> delivered s
                 | Some w \<Rightarrow> delivered s
                     @ [CbError (Error (''Expected an integer but got '' @ quoted t))]))"
proof -
  have d: "dispatch env el t s = endInt t s"
    using assms(3) by (auto simp: dispatch_def)
  show ?thesis
  proof (cases "z = []")
    case True
    then have "parseInt t = NaN" using assms(4) by (simp add: parseInt_NaN_iff)
    then have "onClosetag env el s
        = onError (ThrownError (Error (''Expected an integer but got '' @ quoted t))) s"
      using assms(2) d by (simp add: onClosetag_def endInt_def)
    with True assms(1) show ?thesis
      by (simp add: onError_fresh call_callback_error split: option.splits)
  next
    case False
    then have "parseInt t \<noteq> NaN" using assms(4) by (simp add: parseInt_NaN_iff)
    moreover have "parseInt t = to_double ((if is_negative (dropWhile is_js_whitespace t) then - 1 else 1)
                                             * of_int (digits_value z))"
      using False assms(4) by (simp add: parseInt_def Let_def)
    ultimately show ?thesis
      using False assms(2) d by (simp add: onClosetag_def endInt_def push_def Let_def)
  qed
qed

theorem endInt_parses_digit_prefix_witness:
  "error ((deserializeMethodResponse (new_deserializer None))\<lparr>data := ['' -7'', ''1x'']\<rparr>) = None
   \<and> takeWhile is_digit (skip_sign (dropWhile is_js_whitespace '' -71x'')) = ''71''
   \<and> onClosetag utc_env ''I4''
        ((deserializeMethodResponse (new_deserializer None))\<lparr>data := ['' -7'', ''1x'']\<rparr>)
      = (deserializeMethodResponse (new_deserializer None))
          \<lparr>data := ['' -7'', ''1x''], stack := [VNumber (Finite (- 71))], valueFlag := False\<rparr>
   \<and> takeWhile is_digit (skip_sign (dropWhile is_js_whitespace ''x1'')) = []
   \<and> error (onClosetag utc_env ''INT''
        ((deserializeMethodResponse (new_deserializer None))\<lparr>data := [''x1'']\<rparr>))
      = Some (Error (''Expected an integer but got '' @ quoted ''x1''))"
  using endInt_parses_digit_prefix
      [of "(deserializeMethodResponse (new_deserializer None))\<lparr>data := ['' -7'', ''1x'']\<rparr>"
        "'' -71x''" "''I4''" "''71''" utc_env]
    endInt_parses_digit_prefix
      [of "(deserializeMethodResponse (new_deserializer None))\<lparr>data := [''x1'']\<rparr>"
        "''x1''" "''INT''" "[]" utc_env]
    to_double_int [of "- 71"]
  by (simp add: new_deserializer_def deserializeMethodResponse_def text_eval)

text \<open>
  The claim as stated fails: \<open>12abc\<close> is not the text of a base-10 signed integer, yet
  closing \<open>INT\<close> on it raises no error and pushes 12.
\<close>

theorem endInt_counterexample:
  "\<not> integer_text ''12abc''
   \<and> error (onClosetag utc_env ''INT''
        ((deserializeMethodResponse (new_deserializer None))\<lparr>data := [''12abc'']\<rparr>)) = None
   \<and> stack (onClosetag utc_env ''INT''
        ((deserializeMethodResponse (new_deserializer None))\<lparr>data := [''12abc'']\<rparr>))
      = [VNumber (Finite 12)]"
  by (simp add: onClosetag_def dispatch_def endInt_def parseInt_12abc push_def
      new_deserializer_def deserializeMethodResponse_def all_digits_def)

section \<open>Facts about the handlers\<close>

lemmas end_defs = endNil_def endBoolean_def endInt_def endDouble_def endString_def
  endArray_def endStruct_def endBase64_def endDateTime_def endI8_def endValue_def
  endParams_def endFault_def endMethodResponse_def endMethodName_def endMethodCall_def push_def

lemma helpers_valueFlag:
  "case endBoolean d s of Inl p \<Rightarrow> valueFlag (snd p) = valueFlag s | Inr s' \<Rightarrow> \<not> valueFlag s'"
  "case endInt d s of Inl p \<Rightarrow> valueFlag (snd p) = valueFlag s | Inr s' \<Rightarrow> \<not> valueFlag s'"
  "case endI8 d s of Inl p \<Rightarrow> valueFlag (snd p) = valueFlag s | Inr s' \<Rightarrow> \<not> valueFlag s'"
  "case endDouble d s of Inl p \<Rightarrow> valueFlag (snd p) = valueFlag s | Inr s' \<Rightarrow> \<not> valueFlag s'"
  "case endString d s of Inl p \<Rightarrow> valueFlag (snd p) = valueFlag s | Inr s' \<Rightarrow> \<not> valueFlag s'"
  "case endArray s of Inl p \<Rightarrow> valueFlag (snd p) = valueFlag s | Inr s' \<Rightarrow> \<not> valueFlag s'"
  "case endStruct env s of Inl p \<Rightarrow> valueFlag (snd p) = valueFlag s | Inr s' \<Rightarrow> \<not> valueFlag s'"
  "case endBase64 d s of Inl p \<Rightarrow> valueFlag (snd p) = valueFlag s | Inr s' \<Rightarrow> \<not> valueFlag s'"
  "case endDateTime env d s of Inl p \<Rightarrow> valueFlag (snd p) = valueFlag s | Inr s' \<Rightarrow> \<not> valueFlag s'"
  "case endNil s of Inl p \<Rightarrow> valueFlag (snd p) = valueFlag s | Inr s' \<Rightarrow> \<not> valueFlag s'"
  by (simp_all add: end_defs Let_def split: sum.splits)

lemma helpers_keep_valueFlag:
  assumes "\<not> valueFlag s"
  shows "case endValue d s of Inl p \<Rightarrow> valueFlag (snd p) = valueFlag s | Inr s' \<Rightarrow> \<not> valueFlag s'"
  "case endParams s of Inl p \<Rightarrow> valueFlag (snd p) = valueFlag s | Inr s' \<Rightarrow> \<not> valueFlag s'"
  "case endFault s of Inl p \<Rightarrow> valueFlag (snd p) = valueFlag s | Inr s' \<Rightarrow> \<not> valueFlag s'"
  "case endMethodResponse s of Inl p \<Rightarrow> valueFlag (snd p) = valueFlag s | Inr s' \<Rightarrow> \<not> valueFlag s'"
  "case endMethodName d s of Inl p \<Rightarrow> valueFlag (snd p) = valueFlag s | Inr s' \<Rightarrow> \<not> valueFlag s'"
  "case endMethodCall s of Inl p \<Rightarrow> valueFlag (snd p) = valueFlag s | Inr s' \<Rightarrow> \<not> valueFlag s'"
  using assms by (simp_all add: end_defs)

lemma dispatch_valueFlag:
  assumes "\<not> valueFlag s"
  shows "case dispatch env el d s of Inl p \<Rightarrow> valueFlag (snd p) = valueFlag s | Inr s' \<Rightarrow> \<not> valueFlag s'"
  unfolding dispatch_def
  using helpers_valueFlag helpers_keep_valueFlag [OF assms] assms
  by simp


lemma handle_valueFlag:
  assumes "\<not> valueFlag s" and "ev \<noteq> Opentag ''VALUE''"
  shows "\<not> valueFlag (handle env ev s)"
proof (cases ev)
  case (Opentag name)
  with assms show ?thesis by (simp add: onOpentag_def Let_def)
next
  case (Closetag el)
  show ?thesis
    using dispatch_valueFlag [OF assms(1), of env el "concat (data s)"] assms(1)
    by (auto simp add: Closetag onClosetag_def onError_def call_callback_def
        split: sum.splits option.splits wrapper.splits)
next
  case (Text t)
  with assms show ?thesis by (simp add: onText_def)
next
  case (CData t)
  with assms show ?thesis by (simp add: onCDATA_def)
next
  case End
  with assms show ?thesis by (simp add: onDone_def split: sum.splits)
next
  case (ErrorEvent msg)
  with assms show ?thesis by (simp add: onError_def)
qed

lemma run_Nil [simp]: "run env [] s = s"
  by (simp add: run_def)

lemma run_Cons [simp]: "run env (ev # evs) s = run env evs (handle env ev s)"
  by (simp add: run_def)

lemma run_append: "run env (xs @ ys) s = run env ys (run env xs s)"
  by (simp add: run_def)

lemma run_valueFlag:
  "\<not> valueFlag s \<Longrightarrow> Opentag ''VALUE'' \<notin> set evs \<Longrightarrow> \<not> valueFlag (run env evs s)"
proof (induction evs arbitrary: s)
  case Nil
  then show ?case by simp
next
  case (Cons ev evs)
  from Cons.prems have "\<not> valueFlag (handle env ev s)" by (intro handle_valueFlag) auto
  with Cons show ?case by simp
qed

lemma dispatch_tag:
  "dispatch env ''BOOLEAN'' d s = endBoolean d s"
  "dispatch env ''INT'' d s = endInt d s"
  "dispatch env ''I4'' d s = endInt d s"
  "dispatch env ''I8'' d s = endI8 d s"
  "dispatch env ''DOUBLE'' d s = endDouble d s"
  "dispatch env ''STRING'' d s = endString d s"
  "dispatch env ''NAME'' d s = endString d s"
  "dispatch env ''ARRAY'' d s = endArray s"
  "dispatch env ''STRUCT'' d s = endStruct env s"
  "dispatch env ''BASE64'' d s = endBase64 d s"
  "dispatch env ''DATETIME.ISO8601'' d s = endDateTime env d s"
  "dispatch env ''VALUE'' d s = endValue d s"
  "dispatch env ''PARAMS'' d s = endParams s"
  "dispatch env ''FAULT'' d s = endFault s"
  "dispatch env ''METHODRESPONSE'' d s = endMethodResponse s"
  "dispatch env ''METHODNAME'' d s = endMethodName d s"
  "dispatch env ''METHODCALL'' d s = endMethodCall s"
  "dispatch env ''NIL'' d s = endNil s"
  "dispatch env ''DATA'' d s = Inr s"
  "dispatch env ''PARAM'' d s = Inr s"
  "dispatch env ''MEMBER'' d s = Inr s"
  by (simp_all add: dispatch_def)

section \<open>Closing a VALUE element\<close>

lemma endValue_cases:
  "onClosetag env ''VALUE'' s =
     (if valueFlag s then s\<lparr>stack := stack s @ [VString (concat (data s))], valueFlag := False\<rparr>
      else s)"
  by (simp add: onClosetag_def dispatch_def endValue_def endString_def push_def)

text \<open>
  Claim C10. Every open tag sets the bare-value flag exactly when it is \<open>VALUE\<close>, so any
  other open tag after \<open>VALUE\<close> clears it, and no later event other than another open
  \<open>VALUE\<close> sets it again. Closing \<open>VALUE\<close> while the flag is clear changes nothing, the
  value stack included; it pushes the buffered text as a string only while the flag is
  still set.
\<close>

theorem endValue_only_bare:
  "valueFlag (onOpentag name s) = (name = ''VALUE'')
   \<and> (name \<noteq> ''VALUE'' \<longrightarrow> Opentag ''VALUE'' \<notin> set evs \<longrightarrow>
        onClosetag env ''VALUE'' (run env (Opentag name # evs) s) = run env (Opentag name # evs) s)
   \<and> (\<not> valueFlag s \<longrightarrow> onClosetag env ''VALUE'' s = s)
   \<and> (valueFlag s \<longrightarrow>
        onClosetag env ''VALUE'' s
          = s\<lparr>stack := stack s @ [VString (concat (data s))], valueFlag := False\<rparr>)"
proof -
  have 1: "valueFlag (onOpentag name s) = (name = ''VALUE'')"
    by (simp add: onOpentag_def Let_def)
  have 2: "onClosetag env ''VALUE'' (run env (Opentag name # evs) s) = run env (Opentag name # evs) s"
    if "name \<noteq> ''VALUE''" "Opentag ''VALUE'' \<notin> set evs"
  proof -
    have "\<not> valueFlag (onOpentag name s)" using 1 that(1) by simp
    then have "\<not> valueFlag (run env evs (onOpentag name s))" using that(2) by (rule run_valueFlag)
    then show ?thesis by (simp add: endValue_cases)
  qed
  show ?thesis using 1 2 by (simp add: endValue_cases)
qed

theorem endValue_only_bare_witness:
  "''INT'' \<noteq> ''VALUE'' \<and> Opentag ''VALUE'' \<notin> set [Text ''5'', Closetag ''INT'']
   \<and> stack (run utc_env [Opentag ''VALUE'', Opentag ''INT'', Text ''5'', Closetag ''INT'', Closetag ''VALUE'']
        (new_deserializer None))
      = stack (run utc_env [Opentag ''VALUE'', Opentag ''INT'', Text ''5'', Closetag ''INT'']
        (new_deserializer None))
   \<and> valueFlag (onOpentag ''VALUE'' (new_deserializer None))
   \<and> stack (run utc_env [Opentag ''VALUE'', Text ''a'', Text ''b'', Closetag ''VALUE''] (new_deserializer None))
      = [VString ''ab'']"
  using endValue_only_bare [of "''INT''" "onOpentag ''VALUE'' (new_deserializer None)"
      "[Text ''5'', Closetag ''INT'']" utc_env]
    endValue_only_bare [of "''VALUE''" "new_deserializer None" "[]" utc_env]
    endValue_only_bare [of "''VALUE''"
      "run utc_env [Opentag ''VALUE'', Text ''a'', Text ''b''] (new_deserializer None)" "[]" utc_env]
  by (simp add: onOpentag_def onText_def new_deserializer_def)

section \<open>Closing a STRUCT element\<close>

lemma struct_key_texts:
  "js_String env (VString n) = Inr n"
  by (simp add: js_String_def)

lemma member_run:
  "run env (member_events n v) s
     = s\<lparr>stack := stack s @ [VString n, VString v], data := [v], valueFlag := False\<rparr>"
  by (simp add: member_events_def onOpentag_def onText_def onClosetag_def dispatch_tag
      endString_def endValue_def push_def)

text \<open>
  Claim C5. Closing a \<open>STRUCT\<close> element pops the topmost mark, reads the stack entries
  above it as alternating names and values, and puts a single struct in their place; a
  struct with two members of the same name is to decode to one member holding the later
  value. For the name \<open>a\<close> it does: the response whose struct has two members \<open>a\<close>,
  holding the strings \<open>a\<close> and \<open>b\<close>, is delivered as the struct with the one member \<open>a\<close>
  holding \<open>b\<close>. For the name \<open>__proto__\<close> it does not: \<open>struct[key] = value\<close> reaches the
  setter that \<open>{}\<close> inherits, which ignores a string, and the same response with the name
  \<open>__proto__\<close> is delivered as the empty struct.
\<close>

theorem endStruct_proto_member:
  "delivered (run utc_env (two_member_response ''a'') (deserializeMethodResponse (new_deserializer None)))
     = [CbResponse (VObject [(''a'', VString ''b'')] None)]
   \<and> delivered (run utc_env (two_member_response ''__proto__'')
        (deserializeMethodResponse (new_deserializer None)))
     = [CbResponse (VObject [] None)]
   \<and> onClosetag utc_env ''STRUCT''
        ((new_deserializer None)\<lparr>marks := [1],
           stack := [VNull, VString ''__proto__'', VString ''a'', VString ''__proto__'', VString ''b'']\<rparr>)
     = (new_deserializer None)\<lparr>marks := [], stack := [VNull, VObject [] None], valueFlag := False\<rparr>"
proof -
  have a: "struct_loop utc_env [VString ''a'', VString ''a'', VString ''a'', VString ''b''] (VObject [] None)
      = Inr (VObject [(''a'', VString ''b'')] None)"
    by (simp add: struct_key_texts set_member_def define_own_def)
  have p: "struct_loop utc_env [VString ''__proto__'', VString ''a'', VString ''__proto__'', VString ''b'']
        (VObject [] None)
      = Inr (VObject [] None)"
    by (simp add: struct_key_texts set_member_def)
  have s: "run utc_env (two_member_response n) (deserializeMethodResponse (new_deserializer None))
      = onDone utc_env (run utc_env
          [Closetag ''STRUCT'', Closetag ''VALUE'', Closetag ''PARAM'', Closetag ''PARAMS'',
           Closetag ''METHODRESPONSE'']
          ((deserializeMethodResponse (new_deserializer None))
             \<lparr>marks := [0], stack := [VString n, VString ''a'', VString n, VString ''b''],
              data := [''b''], valueFlag := False\<rparr>))" for n
    by (simp add: two_member_response_def run_append member_run onOpentag_def
        deserializeMethodResponse_def new_deserializer_def)
  have 1: "delivered (run utc_env (two_member_response ''a'')
        (deserializeMethodResponse (new_deserializer None)))
     = [CbResponse (VObject [(''a'', VString ''b'')] None)]"
    unfolding s
    by (simp add: onClosetag_def dispatch_tag endStruct_def Let_def a endValue_def endParams_def
        endMethodResponse_def onDone_def call_callback_def response_outcome_def
        deserializeMethodResponse_def new_deserializer_def del: struct_loop.simps)
  have 2: "delivered (run utc_env (two_member_response ''__proto__'')
        (deserializeMethodResponse (new_deserializer None)))
     = [CbResponse (VObject [] None)]"
    unfolding s
    by (simp add: onClosetag_def dispatch_tag endStruct_def Let_def p endValue_def endParams_def
        endMethodResponse_def onDone_def call_callback_def response_outcome_def
        deserializeMethodResponse_def new_deserializer_def del: struct_loop.simps)
  have 3: "onClosetag utc_env ''STRUCT''
        ((new_deserializer None)\<lparr>marks := [1],
           stack := [VNull, VString ''__proto__'', VString ''a'', VString ''__proto__'', VString ''b'']\<rparr>)
     = (new_deserializer None)\<lparr>marks := [], stack := [VNull, VObject [] None], valueFlag := False\<rparr>"
    by (simp add: onClosetag_def dispatch_tag endStruct_def Let_def p new_deserializer_def
        del: struct_loop.simps)
  show ?thesis using 1 2 3 by simp
qed

section \<open>The end of the stream\<close>

text \<open>
  Claim C6, as amended. When \<open>end\<close> arrives while no error has been recorded and the
  envelope type is still unset or a mark is still on the marks stack (an open \<open>ARRAY\<close> or
  \<open>STRUCT\<close> tag leaves one), the deserializer delivers the error "Invalid XML-RPC message"
  and no decoded result. When an error was recorded before, that error was the outcome
  and \<open>end\<close> delivers nothing.
\<close>

theorem onDone_invalid_message:
  assumes "msgType s = None \<or> marks s \<noteq> []" and "callback s = Some w"
  shows "(error s = None \<longrightarrow>
            onDone env s = s\<lparr>delivered := delivered s @ [CbError (Error ''Invalid XML-RPC message'')]\<rparr>)
       \<and> (error s \<noteq> None \<longrightarrow> onDone env s = s)
       \<and> marks (onOpentag ''ARRAY'' s) \<noteq> [] \<and> marks (onOpentag ''STRUCT'' s) \<noteq> []"
  using assms by (auto simp: onDone_def call_callback_error onOpentag_def)

theorem onDone_invalid_message_witness:
  "marks (run utc_env [Opentag ''VALUE'', Opentag ''ARRAY'', Closetag ''METHODRESPONSE'']
       (deserializeMethodResponse (new_deserializer None))) \<noteq> []
   \<and> callback (run utc_env [Opentag ''VALUE'', Opentag ''ARRAY'', Closetag ''METHODRESPONSE'']
       (deserializeMethodResponse (new_deserializer None))) = Some ResponseWrapper
   \<and> delivered (run utc_env [Opentag ''VALUE'', Opentag ''ARRAY'', Closetag ''METHODRESPONSE'', End]
       (deserializeMethodResponse (new_deserializer None)))
      = [CbError (Error ''Invalid XML-RPC message'')]"
  using onDone_invalid_message [of "run utc_env [Opentag ''VALUE'', Opentag ''ARRAY'', Closetag ''METHODRESPONSE'']
       (deserializeMethodResponse (new_deserializer None))" ResponseWrapper utc_env]
  by (simp add: onOpentag_def onClosetag_def dispatch_tag endMethodResponse_def
      deserializeMethodResponse_def new_deserializer_def)

text \<open>
  The claim as stated fails: after an \<open>error\<close> event and an open \<open>ARRAY\<close> tag, \<open>end\<close>
  arrives while the envelope type is unset and a mark is on the marks stack, and the
  deserializer delivers no "Invalid XML-RPC message": the only outcome is the error
  delivered before.
\<close>

theorem onDone_after_error_counterexample:
  "msgType (run utc_env [ErrorEvent (ThrownString ''boom''), Opentag ''ARRAY'']
       (deserializeMethodResponse (new_deserializer None))) = None
   \<and> marks (run utc_env [ErrorEvent (ThrownString ''boom''), Opentag ''ARRAY'']
       (deserializeMethodResponse (new_deserializer None))) = [0]
   \<and> delivered (run utc_env [ErrorEvent (ThrownString ''boom''), Opentag ''ARRAY'', End]
       (deserializeMethodResponse (new_deserializer None)))
      = [CbError (Error ''boom'')]"
  by (simp add: onError_def call_callback_def response_outcome_def onOpentag_def onDone_def
      deserializeMethodResponse_def new_deserializer_def)

section \<open>Errors are delivered once\<close>

lemma helpers_keep_outcome:
  "case endBoolean d s of Inl p \<Rightarrow> error (snd p) = error s \<and> delivered (snd p) = delivered s \<and> callback (snd p) = callback s
   | Inr s' \<Rightarrow> error s' = error s \<and> delivered s' = delivered s"
  "case endInt d s of Inl p \<Rightarrow> error (snd p) = error s \<and> delivered (snd p) = delivered s \<and> callback (snd p) = callback s
   | Inr s' \<Rightarrow> error s' = error s \<and> delivered s' = delivered s"
  "case endI8 d s of Inl p \<Rightarrow> error (snd p) = error s \<and> delivered (snd p) = delivered s \<and> callback (snd p) = callback s
   | Inr s' \<Rightarrow> error s' = error s \<and> delivered s' = delivered s"
  "case endDouble d s of Inl p \<Rightarrow> error (snd p) = error s \<and> delivered (snd p) = delivered s \<and> callback (snd p) = callback s
   | Inr s' \<Rightarrow> error s' = error s \<and> delivered s' = delivered s"
  "case endString d s of Inl p \<Rightarrow> error (snd p) = error s \<and> delivered (snd p) = delivered s \<and> callback (snd p) = callback s
   | Inr s' \<Rightarrow> error s' = error s \<and> delivered s' = delivered s"
  "case endArray s of Inl p \<Rightarrow> error (snd p) = error s \<and> delivered (snd p) = delivered s \<and> callback (snd p) = callback s
   | Inr s' \<Rightarrow> error s' = error s \<and> delivered s' = delivered s"
  "case endStruct env s of Inl p \<Rightarrow> error (snd p) = error s \<and> delivered (snd p) = delivered s \<and> callback (snd p) = callback s
   | Inr s' \<Rightarrow> error s' = error s \<and> delivered s' = delivered s"
  "case endBase64 d s of Inl p \<Rightarrow> error (snd p) = error s \<and> delivered (snd p) = delivered s \<and> callback (snd p) = callback s
   | Inr s' \<Rightarrow> error s' = error s \<and> delivered s' = delivered s"
  "case endDateTime env d s of Inl p \<Rightarrow> error (snd p) = error s \<and> delivered (snd p) = delivered s \<and> callback (snd p) = callback s
   | Inr s' \<Rightarrow> error s' = error s \<and> delivered s' = delivered s"
  "case endNil s of Inl p \<Rightarrow> error (snd p) = error s \<and> delivered (snd p) = delivered s \<and> callback (snd p) = callback s
   | Inr s' \<Rightarrow> error s' = error s \<and> delivered s' = delivered s"
  "case endValue d s of Inl p \<Rightarrow> error (snd p) = error s \<and> delivered (snd p) = delivered s \<and> callback (snd p) = callback s
   | Inr s' \<Rightarrow> error s' = error s \<and> delivered s' = delivered s"
  "case endParams s of Inl p \<Rightarrow> error (snd p) = error s \<and> delivered (snd p) = delivered s \<and> callback (snd p) = callback s
   | Inr s' \<Rightarrow> error s' = error s \<and> delivered s' = delivered s"
  "case endFault s of Inl p \<Rightarrow> error (snd p) = error s \<and> delivered (snd p) = delivered s \<and> callback (snd p) = callback s
   | Inr s' \<Rightarrow> error s' = error s \<and> delivered s' = delivered s"
  "case endMethodResponse s of Inl p \<Rightarrow> error (snd p) = error s \<and> delivered (snd p) = delivered s \<and> callback (snd p) = callback s
   | Inr s' \<Rightarrow> error s' = error s \<and> delivered s' = delivered s"
  "case endMethodName d s of Inl p \<Rightarrow> error (snd p) = error s \<and> delivered (snd p) = delivered s \<and> callback (snd p) = callback s
   | Inr s' \<Rightarrow> error s' = error s \<and> delivered s' = delivered s"
  "case endMethodCall s of Inl p \<Rightarrow> error (snd p) = error s \<and> delivered (snd p) = delivered s \<and> callback (snd p) = callback s
   | Inr s' \<Rightarrow> error s' = error s \<and> delivered s' = delivered s"
  by (simp_all add: end_defs Let_def split: sum.splits)

lemma dispatch_keeps_outcome:
  "case dispatch env el d s of Inl p \<Rightarrow> error (snd p) = error s \<and> delivered (snd p) = delivered s \<and> callback (snd p) = callback s
   | Inr s' \<Rightarrow> error s' = error s \<and> delivered s' = delivered s"
  unfolding dispatch_def using helpers_keep_outcome by simp

lemma handle_after_error:
  assumes "error s = Some e"
  shows "error (handle env ev s) = Some e \<and> delivered (handle env ev s) = delivered s"
proof (cases ev)
  case (Opentag name)
  with assms show ?thesis by (simp add: onOpentag_def Let_def)
next
  case (Closetag el)
  show ?thesis
    using dispatch_keeps_outcome [where env = env and el = el and d = "concat (data s)" and s = s] assms
    by (auto simp add: Closetag onClosetag_def onError_def split: sum.splits)
next
  case (Text t)
  with assms show ?thesis by (simp add: onText_def)
next
  case (CData t)
  with assms show ?thesis by (simp add: onCDATA_def)
next
  case End
  with assms show ?thesis by (simp add: onDone_def)
next
  case (ErrorEvent msg)
  with assms show ?thesis by (simp add: onError_def)
qed

lemma run_after_error:
  "error s = Some e \<Longrightarrow> error (run env evs s) = Some e \<and> delivered (run env evs s) = delivered s"
proof (induction evs arbitrary: s)
  case Nil
  then show ?case by simp
next
  case (Cons ev evs)
  from handle_after_error [OF Cons.prems, where env = env and ev = ev] Cons.IH [where s = "handle env ev s"]
  show ?case by simp
qed

text \<open>
  Claim C7, as amended. The first error that is recorded is delivered exactly once. An
  \<open>error\<close> event that arrives while no error is recorded and a callback is installed
  records its error and delivers it; so does a close tag whose helper throws (a decode
  failure); and whatever events follow, nothing more is delivered and the recorded error
  stays. In general, once an error is recorded no event delivers an outcome or changes
  the recorded error. (The tag and text handlers are not guarded: they go on updating the
  stack, the marks, the text buffer and the flags.)
\<close>

theorem first_error_delivered_once:
  "(error s = None \<longrightarrow> callback s = Some w \<longrightarrow>
      delivered (run env (ErrorEvent msg # evs) s) = delivered s @ [CbError (as_error msg)]
      \<and> error (run env (ErrorEvent msg # evs) s) = Some (as_error msg))
   \<and> (error s = None \<longrightarrow> callback s = Some w \<longrightarrow> dispatch env el (concat (data s)) s = Inl (x, s') \<longrightarrow>
      delivered (run env (Closetag el # evs) s) = delivered s @ [CbError x]
      \<and> error (run env (Closetag el # evs) s) = Some x)
   \<and> (error s = Some e \<longrightarrow>
      delivered (run env evs s) = delivered s \<and> error (run env evs s) = Some e)"
proof -
  have 1: "delivered (run env (ErrorEvent msg # evs) s) = delivered s @ [CbError (as_error msg)]
      \<and> error (run env (ErrorEvent msg # evs) s) = Some (as_error msg)"
    if "error s = None" "callback s = Some w"
  proof -
    have "error (onError msg s) = Some (as_error msg)"
      "delivered (onError msg s) = delivered s @ [CbError (as_error msg)]"
      using that by (simp_all add: onError_fresh call_callback_error)
    with run_after_error [where s = "onError msg s" and e = "as_error msg" and env = env and evs = evs]
    show ?thesis by simp
  qed
  have 2: "delivered (run env (Closetag el # evs) s) = delivered s @ [CbError x]
      \<and> error (run env (Closetag el # evs) s) = Some x"
    if "error s = None" "callback s = Some w" "dispatch env el (concat (data s)) s = Inl (x, s')"
  proof -
    have k: "error s' = None" "delivered s' = delivered s" "callback s' = Some w"
      using dispatch_keeps_outcome [where env = env and el = el and d = "concat (data s)" and s = s] that
      by simp_all
    have c: "onClosetag env el s = onError (ThrownError x) s'"
      using that(3) by (simp add: onClosetag_def)
    have "error (onClosetag env el s) = Some x"
      "delivered (onClosetag env el s) = delivered s @ [CbError x]"
      using k by (simp_all add: c onError_fresh call_callback_error)
    with run_after_error [where s = "onClosetag env el s" and e = x and env = env and evs = evs]
    show ?thesis by simp
  qed
  show ?thesis
    using 1 2 run_after_error [where s = s and e = e and env = env and evs = evs] by blast
qed

theorem first_error_delivered_once_witness:
  "error (deserializeMethodCall (new_deserializer None)) = None
   \<and> callback (deserializeMethodCall (new_deserializer None)) = Some CallWrapper
   \<and> delivered (run utc_env
        [ErrorEvent (ThrownString ''boom''), Opentag ''ARRAY'', ErrorEvent ThrownOther, End]
        (deserializeMethodCall (new_deserializer None)))
      = [CbError (Error ''boom'')]
   \<and> dispatch utc_env ''BOOLEAN'' ''2'' ((deserializeMethodCall (new_deserializer None))\<lparr>data := [''2'']\<rparr>)
      = Inl (Error (''Illegal boolean value '' @ quoted ''2''),
             (deserializeMethodCall (new_deserializer None))\<lparr>data := [''2'']\<rparr>)
   \<and> delivered (run utc_env
        [Closetag ''BOOLEAN'', Opentag ''ARRAY'', Closetag ''INT'', ErrorEvent ThrownOther, End]
        ((deserializeMethodCall (new_deserializer None))\<lparr>data := [''2'']\<rparr>))
      = [CbError (Error (''Illegal boolean value '' @ quoted ''2''))]"
  using first_error_delivered_once [where s = "deserializeMethodCall (new_deserializer None)"
      and w = CallWrapper and env = utc_env and msg = "ThrownString ''boom''"
      and evs = "[Opentag ''ARRAY'', ErrorEvent ThrownOther, End]"]
    first_error_delivered_once [where s = "(deserializeMethodCall (new_deserializer None))\<lparr>data := [''2'']\<rparr>"
      and w = CallWrapper and env = utc_env and el = "''BOOLEAN''"
      and x = "Error (''Illegal boolean value '' @ quoted ''2'')"
      and s' = "(deserializeMethodCall (new_deserializer None))\<lparr>data := [''2'']\<rparr>"
      and evs = "[Opentag ''ARRAY'', Closetag ''INT'', ErrorEvent ThrownOther, End]"]
  by (simp add: deserializeMethodCall_def new_deserializer_def dispatch_tag endBoolean_def)

text \<open>
  The claim as stated fails: events received after a delivered error are not ignored. An
  open \<open>ARRAY\<close> tag and a text chunk after the error push a mark and fill the text buffer.
\<close>

theorem events_after_error_counterexample:
  "error (run utc_env [ErrorEvent (ThrownString ''boom'')]
       (deserializeMethodCall (new_deserializer None))) = Some (Error ''boom'')
   \<and> run utc_env [ErrorEvent (ThrownString ''boom''), Opentag ''ARRAY'', Text ''x'']
       (deserializeMethodCall (new_deserializer None))
     \<noteq> run utc_env [ErrorEvent (ThrownString ''boom'')]
       (deserializeMethodCall (new_deserializer None))
   \<and> marks (run utc_env [ErrorEvent (ThrownString ''boom''), Opentag ''ARRAY'', Text ''x'']
       (deserializeMethodCall (new_deserializer None))) = [0]
   \<and> data (run utc_env [ErrorEvent (ThrownString ''boom''), Opentag ''ARRAY'', Text ''x'']
       (deserializeMethodCall (new_deserializer None))) = [''x'']"
proof -
  have m: "marks (run utc_env [ErrorEvent (ThrownString ''boom''), Opentag ''ARRAY'', Text ''x'']
       (deserializeMethodCall (new_deserializer None))) = [0]"
    by (simp add: onError_def onOpentag_def onText_def deserializeMethodCall_def
        new_deserializer_def Let_def)
  have m0: "marks (run utc_env [ErrorEvent (ThrownString ''boom'')]
       (deserializeMethodCall (new_deserializer None))) = []"
    by (simp add: onError_def deserializeMethodCall_def new_deserializer_def)
  have "run utc_env [ErrorEvent (ThrownString ''boom''), Opentag ''ARRAY'', Text ''x'']
       (deserializeMethodCall (new_deserializer None))
     \<noteq> run utc_env [ErrorEvent (ThrownString ''boom'')]
       (deserializeMethodCall (new_deserializer None))"
    using m m0 by (metis list.distinct(1))
  moreover have "data (run utc_env [ErrorEvent (ThrownString ''boom''), Opentag ''ARRAY'', Text ''x'']
       (deserializeMethodCall (new_deserializer None))) = [''x'']"
    by (simp add: onError_def onOpentag_def onText_def deserializeMethodCall_def
        new_deserializer_def Let_def)
  moreover have "error (run utc_env [ErrorEvent (ThrownString ''boom'')]
       (deserializeMethodCall (new_deserializer None))) = Some (Error ''boom'')"
    by (simp add: onError_def deserializeMethodCall_def new_deserializer_def)
  ultimately show ?thesis using m by simp
qed

section \<open>Closing a BASE64 element\<close>

lemma parseFloat_x: "parseFloat ''x'' = NaN"
  by (simp add: parseFloat_def text_eval)

lemma decodeIso8601_x: "\<exists>e. decodeIso8601 off ''x'' = Inl e"
  by (simp add: decodeIso8601_def match_here_def)

text \<open>
  Claim C9. Closing a \<open>BASE64\<close> element never raises a decode error, whatever the buffered
  text: it always pushes the bytes that the tolerant base64 decoding yields and clears
  the bare-value flag. Of the typed elements, \<open>BASE64\<close>, \<open>STRING\<close>, \<open>NAME\<close> and \<open>NIL\<close> accept
  every text, while each of \<open>BOOLEAN\<close>, \<open>INT\<close>, \<open>I4\<close>, \<open>I8\<close>, \<open>DOUBLE\<close> and
  \<open>DATETIME.ISO8601\<close> rejects some text (the text \<open>x\<close>, for one).
\<close>

theorem endBase64_never_fails:
  "onClosetag env ''BASE64'' s
     = s\<lparr>stack := stack s @ [VBuffer (base64_decode (concat (data s)))], valueFlag := False\<rparr>
   \<and> (\<forall>el \<in> {''BASE64'', ''STRING'', ''NAME'', ''NIL''}. \<forall>t. \<exists>s'. dispatch env el t s = Inr s')
   \<and> (\<forall>el \<in> {''BOOLEAN'', ''INT'', ''I4'', ''I8'', ''DOUBLE'', ''DATETIME.ISO8601''}.
        \<exists>e. dispatch env el ''x'' s = Inl e)"
proof -
  have 1: "onClosetag env ''BASE64'' s
     = s\<lparr>stack := stack s @ [VBuffer (base64_decode (concat (data s)))], valueFlag := False\<rparr>"
    by (simp add: onClosetag_def dispatch_tag endBase64_def push_def)
  have 2: "\<exists>s'. dispatch env el t s = Inr s'"
    if "el \<in> {''BASE64'', ''STRING'', ''NAME'', ''NIL''}" for el t
    using that by (auto simp: dispatch_tag endBase64_def endString_def endNil_def)
  have p: "parseInt ''x'' = NaN" by (simp add: parseInt_NaN_iff text_eval)
  have 3: "\<exists>e. dispatch env el ''x'' s = Inl e"
    if "el \<in> {''BOOLEAN'', ''INT'', ''I4'', ''I8'', ''DOUBLE'', ''DATETIME.ISO8601''}" for el
  proof -
    obtain e where "decodeIso8601 (nowOffset env) ''x'' = Inl e"
      using decodeIso8601_x by blast
    then have "dispatch env ''DATETIME.ISO8601'' ''x'' s = Inl (e, s)"
      by (simp add: dispatch_tag endDateTime_def)
    then show ?thesis
      using that
      by (auto simp: dispatch_tag endBoolean_def endInt_def endI8_def endDouble_def
          p parseFloat_x isInteger_def is_digit_def)
  qed
  show ?thesis using 1 2 3 by blast
qed

theorem endBase64_never_fails_witness:
  "''BASE64'' \<in> {''BASE64'', ''STRING'', ''NAME'', ''NIL''}
   \<and> ''DOUBLE'' \<in> {''BOOLEAN'', ''INT'', ''I4'', ''I8'', ''DOUBLE'', ''DATETIME.ISO8601''}
   \<and> onClosetag utc_env ''BASE64'' ((new_deserializer None)\<lparr>data := [''aGk='']\<rparr>)
      = (new_deserializer None)\<lparr>data := [''aGk=''], stack := [VBuffer [104, 105]], valueFlag := False\<rparr>
   \<and> onClosetag utc_env ''BASE64'' ((new_deserializer None)\<lparr>data := [''!*'']\<rparr>)
      = (new_deserializer None)\<lparr>data := [''!*''], stack := [VBuffer []], valueFlag := False\<rparr>
   \<and> (\<exists>s'. dispatch utc_env ''BASE64'' ''!*'' (new_deserializer None) = Inr s')
   \<and> (\<exists>e. dispatch utc_env ''DOUBLE'' ''x'' (new_deserializer None) = Inl e)"
proof -
  have a: "base64_decode ''aGk='' = [104, 105]"
    by (simp add: base64_decode_def unbase64_def List.map_filter_def)
  have b: "base64_decode ''!*'' = []"
    by (simp add: base64_decode_def unbase64_def List.map_filter_def)
  show ?thesis
    using endBase64_never_fails [of utc_env "(new_deserializer None)\<lparr>data := [''aGk='']\<rparr>"]
      endBase64_never_fails [of utc_env "(new_deserializer None)\<lparr>data := [''!*'']\<rparr>"]
      endBase64_never_fails [of utc_env "new_deserializer None"]
    by (simp add: a b new_deserializer_def)
qed

section \<open>Writing a string\<close>

lemma take3_len: "take 3 (drop i v) = '']]>'' \<Longrightarrow> i + 3 \<le> length v"
proof -
  assume a: "take 3 (drop i v) = '']]>''"
  have "length (take 3 (drop i v)) = 3" by (simp only: a) simp
  then show ?thesis by simp
qed

lemma has_terminator_iff: "has_terminator v = (\<exists>i. take 3 (drop i v) = '']]>'')"
proof
  assume "has_terminator v"
  then show "\<exists>i. take 3 (drop i v) = '']]>''"
    by (auto simp: has_terminator_def list_ex_iff)
next
  assume "\<exists>i. take 3 (drop i v) = '']]>''"
  then obtain i where i: "take 3 (drop i v) = '']]>''" by blast
  then have "i < length v" using take3_len [OF i] by simp
  with i show "has_terminator v"
    by (auto simp: has_terminator_def list_ex_iff)
qed

lemma all_plain_iff: "list_all plain_char v = (CHR ''<'' \<notin> set v \<and> CHR ''&'' \<notin> set v)"
  by (auto simp: list_all_iff plain_char_def)

lemma illegalChars_test_iff:
  "illegalChars_test v = (CHR ''<'' \<notin> set v \<and> CHR ''&'' \<notin> set v \<and> \<not> has_terminator v)"
proof (cases "list_all plain_char v")
  case False
  then show ?thesis by (auto simp: illegalChars_test_def all_plain_iff)
next
  case True
  have "lookahead v = has_terminator v"
  proof
    assume "lookahead v"
    then show "has_terminator v"
      by (auto simp: lookahead_def list_ex_iff has_terminator_iff)
  next
    assume "has_terminator v"
    then obtain i where i: "take 3 (drop i v) = '']]>''" by (auto simp: has_terminator_iff)
    then have "i < length v" using take3_len [OF i] by simp
    moreover have "list_all plain_char (take i v)"
      using True by (auto simp: list_all_iff dest: in_set_takeD)
    ultimately show "lookahead v"
      using i by (auto simp: lookahead_def list_ex_iff)
  qed
  with True show ?thesis by (simp add: illegalChars_test_def all_plain_iff)
qed


lemma add_child_ele:
  "add_child (xml @ [child_count xml doc]) c (add_child xml (Element n cs) doc)
     = add_child xml (Element n (cs @ [c])) doc"
proof (induction xml c doc rule: add_child.induct)
  case (1 c n' cs')
  then show ?case by (simp add: nth_append)
next
  case (2 i p c n' cs')
  then show ?case by simp
next
  case (3 p c t)
  then show ?case by (cases p) simp_all
next
  case (4 p c t)
  then show ?case by (cases p) simp_all
qed

lemma appendString_content:
  assumes "has_d w \<or> has_cdata w"
  shows "appendString w v doc xml = add_child xml (Element ''string'' (string_content v)) doc"
proof (cases "v = []")
  case True
  then show ?thesis by (simp add: appendString_def ele_def string_content_def)
next
  case False
  show ?thesis
  proof (cases "illegalChars_test v")
    case True
    with False show ?thesis
      using add_child_ele [of xml doc "TextNode (TStr v)" "''string''" "[]"]
      by (simp add: appendString_def ele_def add_txt_def string_content_def illegalChars_test_iff)
  next
    case nt: False
    with False assms show ?thesis
      using add_child_ele [of xml doc "CDataNode v" "''string''" "[]"]
      by (auto simp: appendString_def ele_def add_cdata_def string_content_def illegalChars_test_iff)
  qed
qed

text \<open>
  Claim C2, as amended. Through a writer that offers a CDATA operation (\<open>d\<close> or \<open>cdata\<close>,
  as the nodes of \<open>xmlbuilder\<close> do), \<open>appendString\<close> adds one \<open>string\<close> element under the
  handle: empty for the empty string; holding a CDATA section for a string that contains
  \<open><\<close>, \<open>&\<close> or the sequence \<open>]]>\<close>; holding the string as plain text otherwise. For
  a string free of \<open>]]>\<close> this is the rule of the specification.
\<close>

theorem appendString_writes:
  assumes "has_d w \<or> has_cdata w"
  shows "appendString w v doc xml
           = add_child xml
               (Element ''string''
                  (if v = [] then []
                   else if CHR ''<'' \<in> set v \<or> CHR ''&'' \<in> set v \<or> has_terminator v
                   then [CDataNode v] else [TextNode (TStr v)])) doc
       \<and> (\<not> has_terminator v \<longrightarrow>
            appendString w v doc xml = add_child xml (Element ''string'' (string_content_spec v)) doc)"
  using appendString_content [OF assms, of v doc xml]
  by (simp add: string_content_def string_content_spec_def)

theorem appendString_writes_witness:
  "(has_d xmlbuilder \<or> has_cdata xmlbuilder)
   \<and> \<not> has_terminator ''he<llo''
   \<and> appendString xmlbuilder ''he<llo'' (Element ''value'' []) []
      = Element ''value'' [Element ''string'' [CDataNode ''he<llo'']]
   \<and> appendString xmlbuilder ''hello'' (Element ''value'' []) []
      = Element ''value'' [Element ''string'' [TextNode (TStr ''hello'')]]
   \<and> appendString xmlbuilder [] (Element ''value'' []) [] = Element ''value'' [Element ''string'' []]"
  using appendString_writes [of xmlbuilder "''he<llo''" "Element ''value'' []" "[]"]
    appendString_writes [of xmlbuilder "''hello''" "Element ''value'' []" "[]"]
    appendString_writes [of xmlbuilder "[]" "Element ''value'' []" "[]"]
  by (simp add: xmlbuilder_def has_terminator_def string_content_spec_def)

text \<open>
  The claim as stated fails: the string \<open>]]>\<close> is not empty and contains neither \<open><\<close> nor
  \<open>&\<close>, yet it is written as a CDATA section, not as plain text.
\<close>

theorem appendString_counterexample:
  "'']]>'' \<noteq> [] \<and> CHR ''<'' \<notin> set '']]>'' \<and> CHR ''&'' \<notin> set '']]>''
   \<and> appendString xmlbuilder '']]>'' (Element ''value'' []) []
      = Element ''value'' [Element ''string'' [CDataNode '']]>'']]
   \<and> appendString xmlbuilder '']]>'' (Element ''value'' []) []
      \<noteq> Element ''value'' [Element ''string'' [TextNode (TStr '']]>'')]]"
  using appendString_content [of xmlbuilder "'']]>''" "Element ''value'' []" "[]"]
  by (simp add: xmlbuilder_def string_content_def has_terminator_def)

section \<open>Decoding a date without an offset\<close>

text \<open>
  Claim C8. A text without an offset is read with \<open>formatCurrentOffset\<close> of the current
  offset of the machine appended. For a machine five and a half hours east of UTC
  (\<open>getTimezoneOffset() = -330\<close>) that function gives \<open>+06:30\<close>, because it takes the floor
  of \<open>-5.5\<close>, and \<open>20240102T03:04:05\<close> is decoded as 2024-01-01T20:34:05Z, one hour before
  the instant the local offset \<open>+05:30\<close> gives. With the clock on UTC the same text is
  decoded as 2024-01-02T03:04:05Z, and the time fields a text leaves out are zero.
\<close>

theorem decodeIso8601_east_half_hour:
  "formatCurrentOffset (- 330) = ''+06:30''
   \<and> match_ISO8601 ''20240102T03:04:05''
       = Some \<lparr>g1 = ''2024'', g3 = ''01'', g5 = ''02'', g7 = Some ''03'', g11 = Some ''04'',
               g14 = Some ''05'', g16 = None, g17 = None, g19 = None, g20 = None\<rparr>
   \<and> decodeIso8601 (- 330) ''20240102T03:04:05'' = Inr (Date_new ''2024-01-02T03:04:05.000+06:30'')
   \<and> Date_new ''2024-01-02T03:04:05.000+06:30'' = TimeValue 1704141245000
   \<and> Date_new ''2024-01-02T03:04:05.000+05:30'' = TimeValue 1704144845000
   \<and> decodeIso8601 0 ''20240102T03:04:05'' = Inr (TimeValue 1704164645000)
   \<and> decodeIso8601 0 ''2024-01-02'' = Inr (Date_new ''2024-01-02T00:00:00.000Z'')"
  by code_simp


section \<open>Decimal text and base64 are read back\<close>

lemma is_digit_digit_char: "d < 10 \<Longrightarrow> is_digit (digit_char d)"
  by (simp add: is_digit_def digit_char_def)

lemma digit_val_digit_char: "d < 10 \<Longrightarrow> digit_val (digit_char d) = int d"
  by (simp add: digit_val_def digit_char_def)

lemma show_nat_digits: "list_all is_digit (show_nat n) \<and> show_nat n \<noteq> []"
proof (induction n rule: show_nat.induct)
  case (1 n)
  show ?case
  proof (cases "n < 10")
    case True
    then show ?thesis by (simp add: show_nat.simps [of n] is_digit_digit_char)
  next
    case False
    with 1 show ?thesis by (simp add: show_nat.simps [of n] is_digit_digit_char)
  qed
qed

lemma digits_value_snoc: "digits_value (ds @ [c]) = 10 * digits_value ds + digit_val c"
  by (simp add: digits_value_def)

lemma digits_value_show_nat: "digits_value (show_nat n) = int n"
proof (induction n rule: show_nat.induct)
  case (1 n)
  show ?case
  proof (cases "n < 10")
    case True
    then show ?thesis
      by (simp add: show_nat.simps [of n] digits_value_def digit_val_digit_char)
  next
    case False
    with 1 have "digits_value (show_nat (n div 10)) = int (n div 10)" by simp
    with False show ?thesis
      by (simp add: show_nat.simps [of n] digits_value_snoc digit_val_digit_char zdiv_int zmod_int)
  qed
qed

lemma digit_not_space: "is_digit c \<Longrightarrow> \<not> is_js_whitespace c"
  by (auto simp: is_digit_def is_js_whitespace_def)

lemma digit_not_sign: "is_digit c \<Longrightarrow> c \<noteq> CHR ''-'' \<and> c \<noteq> CHR ''+''"
  by (auto simp: is_digit_def)

lemma parseInt_digits:
  assumes "list_all is_digit ds" and "ds \<noteq> []"
  shows "parseInt ds = to_double (of_int (digits_value ds))"
    and "parseInt (CHR ''-'' # ds) = to_double (- of_int (digits_value ds))"
proof -
  have h: "is_digit (hd ds)" using assms by (cases ds) auto
  have tw: "takeWhile is_digit ds = ds" using assms(1) by (simp add: list_all_iff)
  have dw: "dropWhile is_js_whitespace ds = ds"
    using assms(2) digit_not_space [OF h] by (cases ds) auto
  have sk: "skip_sign ds = ds" "\<not> is_negative ds"
    using digit_not_sign [OF h] by (auto simp: skip_sign_def is_negative_def)
  show "parseInt ds = to_double (of_int (digits_value ds))"
    using assms(2) by (simp add: parseInt_def dw sk tw)
  have dw': "dropWhile is_js_whitespace (CHR ''-'' # ds) = CHR ''-'' # ds"
    by (simp add: is_js_whitespace_def)
  have sk': "skip_sign (CHR ''-'' # ds) = ds" "is_negative (CHR ''-'' # ds)"
    by (simp_all add: skip_sign_def is_negative_def)
  show "parseInt (CHR ''-'' # ds) = to_double (- of_int (digits_value ds))"
    unfolding parseInt_def dw' sk'(1) tw Let_def using assms(2) sk'(2) by simp
qed

lemma parseInt_show_int: "parseInt (show_int k) = to_double (of_int k)"
proof (cases "k < 0")
  case True
  then show ?thesis
    using parseInt_digits(2) [of "show_nat (nat (- k))"] show_nat_digits [of "nat (- k)"]
    by (simp add: show_int_def digits_value_show_nat)
next
  case False
  then show ?thesis
    using parseInt_digits(1) [of "show_nat (nat k)"] show_nat_digits [of "nat k"]
    by (simp add: show_int_def digits_value_show_nat)
qed









section \<open>The serializer writes the value element of the table\<close>




lemma child_count_add:
  "valid_path xml doc \<Longrightarrow> child_count xml (add_child xml e doc) = Suc (child_count xml doc)"
  by (induction xml doc rule: valid_path.induct) simp_all

lemma valid_path_add:
  "valid_path xml doc \<Longrightarrow> valid_path xml (add_child xml e doc)"
  by (induction xml doc rule: valid_path.induct) simp_all





declare serialize_loop.simps [simp del]







section \<open>The deserializer reads the value element back\<close>

lemma upper_tags:
  "map upper_char ''value'' = ''VALUE''" "map upper_char ''nil'' = ''NIL''"
  "map upper_char ''boolean'' = ''BOOLEAN''" "map upper_char ''int'' = ''INT''"
  "map upper_char ''double'' = ''DOUBLE''" "map upper_char ''string'' = ''STRING''"
  "map upper_char ''base64'' = ''BASE64''" "map upper_char ''array'' = ''ARRAY''"
  "map upper_char ''data'' = ''DATA''" "map upper_char ''methodResponse'' = ''METHODRESPONSE''"
  "map upper_char ''params'' = ''PARAMS''" "map upper_char ''param'' = ''PARAM''"
  "map upper_char ''struct'' = ''STRUCT''" "map upper_char ''member'' = ''MEMBER''"
  "map upper_char ''name'' = ''NAME''"
  by code_simp+


lemma Number_toString_int:
  "\<bar>k\<bar> \<le> 2 ^ 53 \<Longrightarrow> Number_toString env (Finite (of_int k)) = show_int k"
proof -
  assume "\<bar>k\<bar> \<le> 2 ^ 53"
  then have "\<bar>of_int k :: rat\<bar> \<le> 2 ^ 53"
    by (metis of_int_abs of_int_le_iff of_int_numeral of_int_power)
  then show ?thesis by (simp add: Number_toString_def)
qed


lemma events_tag:
  "events_of env (Element ''value'' cs) = Opentag ''VALUE'' # concat (map (events_of env) cs) @ [Closetag ''VALUE'']"
  "events_of env (Element ''nil'' cs) = Opentag ''NIL'' # concat (map (events_of env) cs) @ [Closetag ''NIL'']"
  "events_of env (Element ''boolean'' cs) = Opentag ''BOOLEAN'' # concat (map (events_of env) cs) @ [Closetag ''BOOLEAN'']"
  "events_of env (Element ''int'' cs) = Opentag ''INT'' # concat (map (events_of env) cs) @ [Closetag ''INT'']"
  "events_of env (Element ''double'' cs) = Opentag ''DOUBLE'' # concat (map (events_of env) cs) @ [Closetag ''DOUBLE'']"
  "events_of env (Element ''string'' cs) = Opentag ''STRING'' # concat (map (events_of env) cs) @ [Closetag ''STRING'']"
  "events_of env (Element ''base64'' cs) = Opentag ''BASE64'' # concat (map (events_of env) cs) @ [Closetag ''BASE64'']"
  "events_of env (Element ''array'' cs) = Opentag ''ARRAY'' # concat (map (events_of env) cs) @ [Closetag ''ARRAY'']"
  "events_of env (Element ''data'' cs) = Opentag ''DATA'' # concat (map (events_of env) cs) @ [Closetag ''DATA'']"
  "events_of env (Element ''methodResponse'' cs) = Opentag ''METHODRESPONSE'' # concat (map (events_of env) cs) @ [Closetag ''METHODRESPONSE'']"
  "events_of env (Element ''params'' cs) = Opentag ''PARAMS'' # concat (map (events_of env) cs) @ [Closetag ''PARAMS'']"
  "events_of env (Element ''param'' cs) = Opentag ''PARAM'' # concat (map (events_of env) cs) @ [Closetag ''PARAM'']"
  "events_of env (Element ''struct'' cs) = Opentag ''STRUCT'' # concat (map (events_of env) cs) @ [Closetag ''STRUCT'']"
  "events_of env (Element ''member'' cs) = Opentag ''MEMBER'' # concat (map (events_of env) cs) @ [Closetag ''MEMBER'']"
  "events_of env (Element ''name'' cs) = Opentag ''NAME'' # concat (map (events_of env) cs) @ [Closetag ''NAME'']"
  by (simp_all only: events_of.simps upper_tags)

declare events_of.simps(1) [simp del]









section \<open>The round trip\<close>






text \<open>
  A struct does not come back either. The traversal hands the \<open>name\<close> element of a member
  to the frame of the member's value, so the \<open>value\<close> element is written inside \<open>name\<close>;
  read back, the struct with the member \<open>k\<close> holding 5 is the struct with the member \<open>5\<close>
  holding the string \<open>5\<close>.
\<close>

lemma struct_member_nested:
  "serializeMethodResponse xmlbuilder DEFAULT_OPTIONS utc_env
       (VObject [(''k'', VNumber (Finite 5))] None)
     = Inr (Element ''methodResponse'' [Element ''params'' [Element ''param''
         [Element ''value'' [Element ''struct'' [Element ''member''
            [Element ''name'' [TextNode (TStr ''k''),
               Element ''value'' [Element ''int'' [TextNode (TNum (Finite 5))]]]]]]]]])
   \<and> delivered (run utc_env
        (document_events utc_env
           (Element ''methodResponse'' [Element ''params'' [Element ''param''
              [Element ''value'' [Element ''struct'' [Element ''member''
                 [Element ''name'' [TextNode (TStr ''k''),
                    Element ''value'' [Element ''int'' [TextNode (TNum (Finite 5))]]]]]]]]]))
        (deserializeMethodResponse (new_deserializer None)))
     = [CbResponse (VObject [(''5'', VString ''5'')] None)]"
proof -
  have five: "show_int 5 = ''5''"
    by (simp add: show_int_def show_nat.simps digit_char_def digit_chars)
  have n: "Number_toString utc_env (Finite 5) = ''5''"
    using Number_toString_int [of 5 utc_env] five by simp
  have p: "parseInt ''5'' = Finite 5"
    using parseInt_show_int [of 5] to_double_int [of 5] five by simp
  have 1: "serializeMethodResponse xmlbuilder DEFAULT_OPTIONS utc_env
       (VObject [(''k'', VNumber (Finite 5))] None)
     = Inr (Element ''methodResponse'' [Element ''params'' [Element ''param''
         [Element ''value'' [Element ''struct'' [Element ''member''
            [Element ''name'' [TextNode (TStr ''k''),
               Element ''value'' [Element ''int'' [TextNode (TNum (Finite 5))]]]]]]]]])"
    by (simp add: serializeMethodResponse_def create_def ele_def serializeValue_def
        serialize_loop.simps step_def advance_def getNextItemsFrame_def new_frame_def
        Object_keys_def add_txt_def appendNumber_def is_integral_def Let_def)
  have 2: "delivered (run utc_env
        (document_events utc_env
           (Element ''methodResponse'' [Element ''params'' [Element ''param''
              [Element ''value'' [Element ''struct'' [Element ''member''
                 [Element ''name'' [TextNode (TStr ''k''),
                    Element ''value'' [Element ''int'' [TextNode (TNum (Finite 5))]]]]]]]]]))
        (deserializeMethodResponse (new_deserializer None)))
     = [CbResponse (VObject [(''5'', VString ''5'')] None)]"
    by (simp add: document_events_def events_tag text_of_def n p
        onOpentag_def onText_def onClosetag_def dispatch_tag endInt_def endString_def push_def
        endStruct_def js_String_def set_member_def define_own_def
        endValue_def endParams_def endMethodResponse_def onDone_def
        call_callback_def response_outcome_def deserializeMethodResponse_def new_deserializer_def
        Let_def)
  show ?thesis using 1 2 by simp
qed

end
